theory Spec2Isabelle
  imports Main
begin

section \<open>Chrome Web Store publisher (bin/publish-extension.py)\<close>

text \<open>
  A shallow embedding of the script. The script is sequential and talks to three kinds of
  outside world: the HTTP endpoints (through the requests library), the file system and the
  process environment. All three are fields of one record \<open>world\<close> that every function
  takes and returns; the HTTP calls issued so far and the lines printed so far are recorded
  in it, so that "no further call is made" and "a diagnostic is printed" are statements
  about the returned world.
\<close>

subsection \<open>Strings\<close>

text \<open>
  A Python \<^verbatim>\<open>str\<close> is held as the list of the bytes of its UTF-8 encoding. The tests
  that the script makes on a string (emptiness, equality, a prefix or a substring that is
  ASCII, the positions of \<^verbatim>\<open>=\<close> and \<^verbatim>\<open>/\<close>) are the same on this form as on
  the sequence of code points.
\<close>

subsection \<open>Parsed JSON and Python's dynamic operations on it\<close>

text \<open>
  The result of \<^verbatim>\<open>response.json()\<close> and \<^verbatim>\<open>json.load\<close>. \<open>JNull\<close> is Python's
  \<^verbatim>\<open>None\<close>. A parsed object is the association list of its items, read with \<open>map_of\<close>.
  Numbers are integers here: the code only ever tests a number for being zero.
\<close>

datatype json =
    JNull
  | JBool bool
  | JNum int
  | JStr string
  | JArr "json list"
  | JObj "(string \<times> json) list"

text \<open>Python truthiness, as used by \<^verbatim>\<open>if self.access_token\<close> and \<^verbatim>\<open>if info\<close>.\<close>

fun truthy :: "json \<Rightarrow> bool" where
  "truthy JNull = False"
| "truthy (JBool b) = b"
| "truthy (JNum n) = (n \<noteq> 0)"
| "truthy (JStr s) = (s \<noteq> [])"
| "truthy (JArr xs) = (xs \<noteq> [])"
| "truthy (JObj kvs) = (kvs \<noteq> [])"

text \<open>\<^verbatim>\<open>d.get(key, default)\<close> on a parsed object.\<close>

definition dict_get :: "(string \<times> json) list \<Rightarrow> string \<Rightarrow> json \<Rightarrow> json" where
  "dict_get kvs key dflt = (case map_of kvs key of None \<Rightarrow> dflt | Some v \<Rightarrow> v)"

text \<open>\<^verbatim>\<open>s.startswith(pre)\<close> and the substring test \<^verbatim>\<open>sub in s\<close> on strings.\<close>

fun startswith :: "string \<Rightarrow> string \<Rightarrow> bool" where
  "startswith s [] = True"
| "startswith [] (p # ps) = False"
| "startswith (c # cs) (p # ps) = (c = p \<and> startswith cs ps)"

fun str_contains :: "string \<Rightarrow> string \<Rightarrow> bool" where
  "str_contains [] sub = (sub = [])"
| "str_contains (c # cs) sub = (startswith (c # cs) sub \<or> str_contains cs sub)"

text \<open>
  \<^verbatim>\<open>key in x\<close> for a string \<open>key\<close> and a parsed JSON value \<open>x\<close>: membership in a list
  (an element equal to the string), substring of a string, key of an object; \<open>None\<close> is
  the TypeError that Python raises on \<^verbatim>\<open>None\<close>, a boolean or a number.
\<close>

fun py_in :: "string \<Rightarrow> json \<Rightarrow> bool option" where
  "py_in key (JArr xs) = Some (JStr key \<in> set xs)"
| "py_in key (JStr s) = Some (str_contains s key)"
| "py_in key (JObj kvs) = Some (key \<in> fst ` set kvs)"
| "py_in key JNull = None"
| "py_in key (JBool b) = None"
| "py_in key (JNum n) = None"

subsection \<open>HTTP, the printed lines and the world\<close>

datatype http_method = GET | POST | PUT

datatype payload = NoData | Form "(string \<times> string) list" | Bytes string

text \<open>A call of \<^verbatim>\<open>requests.get/post/put\<close>: dictionaries in insertion order.\<close>

record request =
  meth :: http_method
  url :: string
  headers :: "(string \<times> string) list"
  params :: "(string \<times> string) list"
  payload :: payload

text \<open>
  The exceptions named below that are not \<^verbatim>\<open>requests.exceptions.RequestException\<close>s
  (all of them are \<^verbatim>\<open>Exception\<close>s).
\<close>

datatype exn = AttributeError | ValueError | RecursionError | UnicodeError

text \<open>
  What \<^verbatim>\<open>response.json()\<close> does: it returns the parsed value; or it raises requests'
  JSONDecodeError, which is a RequestException, for a body that does not parse; or it
  raises another exception (ValueError for an integer literal longer than the
  interpreter's digit limit, RecursionError for a body nested too deep; with a requests
  library older than 2.27, also the ValueError of a body that does not parse).
\<close>

datatype body = Parsed json | JSONDecodeError | Raises exn

text \<open>
  What the code reads of a response: \<^verbatim>\<open>status_code\<close>, \<^verbatim>\<open>text\<close> and \<^verbatim>\<open>json()\<close>.
\<close>

record response =
  status_code :: int
  resp_text :: string
  json_body :: body

text \<open>
  A call of \<^verbatim>\<open>requests.get/post/put\<close> raises a RequestException (a transport error,
  a time-out, an invalid URL or header), or raises another exception (such as the
  UnicodeEncodeError of a credential that cannot be encoded), or returns a response.
\<close>

datatype http_result = RequestException | OtherException exn | Resp response

text \<open>
  The lines the script prints, one constructor per \<^verbatim>\<open>print\<close> of the modelled
  functions, carrying the values the line formats (the text of a caught exception is not
  modelled).
\<close>

datatype message =
    RefreshingToken | TokenRefreshed | NoTokenInResponse | TokenRefreshError
  | Uploading string | UploadedOk | UploadFailed json | UploadError
  | HttpError int string
  | Publishing string | PublishedOk | PublishFailed json | PublishError
  | FetchingInfo | InfoError
  | PackageJsonNotFound | PackageJsonError
  | PackageNotFound string | RunPackHint
  | LoadingEnvFile | EnvFileError
  | MissingCredentials | MissingVar string | SetupHint | HelpHint
  | ZipNotFound string
  | ExtensionIdLine string | PackageLine string | VersionLine json | BlankLine
  | InfoTitle json | InfoStatus json | InfoVersion json
  | UploadDone | PublishDone | TestersDone

text \<open>
  The world. \<open>net\<close> is the remote side: its answer to a request, given the requests
  issued before it in this process. \<open>trace\<close> (HTTP calls issued, oldest first),
  \<open>out\<close> (lines printed) and \<open>environ\<close> (\<^verbatim>\<open>os.environ\<close>) change as the script runs;
  the other fields are read only. \<open>read_bytes\<close> and \<open>load_json\<close> are
  \<^verbatim>\<open>open(p, 'rb').read()\<close> and \<^verbatim>\<open>json.load(open(p))\<close>, with \<open>None\<close> for a raised
  exception. \<open>read_lines\<close> is iterating over \<^verbatim>\<open>open(p)\<close>: \<open>None\<close> when the file
  cannot be opened, else the lines that are read and whether the iteration came to the end
  of the file (False when reading raised after these lines). \<open>repr\<close> is Python's
  formatting of a parsed value that is not a string, left open. \<open>strip\<close> is Python's
  \<^verbatim>\<open>str.strip()\<close>, which removes from both ends the characters of the interpreter's
  table of Unicode whitespace; the table is not the script's, and the function is left
  open as well. \<open>project_root\<close> is the parent of the script's directory, a
  \<^verbatim>\<open>pathlib\<close> path.
\<close>

record world =
  net :: "request list \<Rightarrow> request \<Rightarrow> http_result"
  trace :: "request list"
  out :: "message list"
  environ :: "string \<Rightarrow> string option"
  path_exists :: "string \<Rightarrow> bool"
  read_bytes :: "string \<Rightarrow> string option"
  read_lines :: "string \<Rightarrow> (string list \<times> bool) option"
  load_json :: "string \<Rightarrow> json option"
  repr :: "json \<Rightarrow> string"
  strip :: "string \<Rightarrow> string"
  project_root :: string

definition say :: "message \<Rightarrow> world \<Rightarrow> world" where
  "say m w = w\<lparr>out := out w @ [m]\<rparr>"

definition send :: "request \<Rightarrow> world \<Rightarrow> http_result \<times> world" where
  "send rq w = (net w (trace w) rq, w\<lparr>trace := trace w @ [rq]\<rparr>)"

text \<open>\<^verbatim>\<open>f"{x}"\<close> of a parsed value: a string is itself.\<close>

definition py_str :: "world \<Rightarrow> json \<Rightarrow> string" where
  "py_str w j = (case j of JStr s \<Rightarrow> s | _ \<Rightarrow> repr w j)"

text \<open>
  How a call ends: it returns a value, an exception leaves it uncaught, or
  \<^verbatim>\<open>sys.exit(n)\<close> was called. The exit code of the process follows Python: an uncaught
  exception ends the process with code 1.
\<close>

datatype 'a res = Ret 'a | Raise exn | Exit int

fun exit_code :: "'a res \<Rightarrow> int" where
  "exit_code (Ret x) = 0"
| "exit_code (Raise e) = 1"
| "exit_code (Exit n) = n"

subsection \<open>class ChromeWebStorePublisher\<close>

text \<open>\<open>access_token\<close> is whatever the token endpoint's JSON held; \<open>JNull\<close> is \<^verbatim>\<open>None\<close>.\<close>

record publisher =
  client_id :: string
  client_secret :: string
  refresh_token :: string
  extension_id :: string
  access_token :: json
  base_url :: string
  upload_url :: string
  publish_url :: string

definition ChromeWebStorePublisher :: "string \<Rightarrow> string \<Rightarrow> string \<Rightarrow> string \<Rightarrow> publisher" where
  "ChromeWebStorePublisher cid secret rtoken eid =
     \<lparr>client_id = cid, client_secret = secret, refresh_token = rtoken, extension_id = eid,
      access_token = JNull,
      base_url = ''https://www.googleapis.com/chromewebstore/v1.1'',
      upload_url = ''https://www.googleapis.com/upload/chromewebstore/v1.1/items/'' @ eid,
      publish_url = ''https://www.googleapis.com/chromewebstore/v1.1'' @ ''/items/'' @ eid @ ''/publish''\<rparr>"

definition token_url :: string where
  "token_url = ''https://oauth2.googleapis.com/token''"

text \<open>The request of \<^verbatim>\<open>requests.post(token_url, data=data)\<close>.\<close>

definition token_request :: "publisher \<Rightarrow> request" where
  "token_request p =
     \<lparr>meth = POST, url = token_url, headers = [], params = [],
      payload = Form [(''client_id'', client_id p), (''client_secret'', client_secret p),
                      (''refresh_token'', refresh_token p), (''grant_type'', ''refresh_token'')]\<rparr>"

text \<open>
  \<^verbatim>\<open>_refresh_access_token\<close> (an Isabelle name cannot start with an underscore).
  \<^verbatim>\<open>raise_for_status\<close> raises for 400 to 599 only; that, a transport error and
  requests' JSONDecodeError are RequestExceptions and are caught. The handler catches
  nothing else: another exception of \<^verbatim>\<open>requests.post\<close> or of \<^verbatim>\<open>json()\<close> leaves the
  function, and so does the AttributeError that \<^verbatim>\<open>token_data.get\<close> raises on a
  parsed value that is not an object.
\<close>

definition refresh_access_token :: "publisher \<Rightarrow> world \<Rightarrow> bool res \<times> publisher \<times> world" where
  "refresh_access_token p w0 =
     (let w1 = say RefreshingToken w0;
          (r, w2) = send (token_request p) w1
      in case r of
           RequestException \<Rightarrow> (Ret False, p, say TokenRefreshError w2)
         | OtherException e \<Rightarrow> (Raise e, p, w2)
         | Resp resp \<Rightarrow>
             if 400 \<le> status_code resp \<and> status_code resp < 600
             then (Ret False, p, say TokenRefreshError w2)
             else (case json_body resp of
                     JSONDecodeError \<Rightarrow> (Ret False, p, say TokenRefreshError w2)
                   | Raises e \<Rightarrow> (Raise e, p, w2)
                   | Parsed (JObj token_data) \<Rightarrow>
                       (let p' = p\<lparr>access_token := dict_get token_data ''access_token'' JNull\<rparr>
                        in if truthy (access_token p')
                           then (Ret True, p', say TokenRefreshed w2)
                           else (Ret False, p', say NoTokenInResponse w2))
                   | Parsed _ \<Rightarrow> (Raise AttributeError, p, w2)))"

definition get_headers :: "publisher \<Rightarrow> world \<Rightarrow> (string \<times> string) list" where
  "get_headers p w =
     [(''Authorization'', ''Bearer '' @ py_str w (access_token p)),
      (''x-goog-api-version'', ''2'')]"

text \<open>
  The guard that opens the three operations,
  \<^verbatim>\<open>not self.access_token and not self._refresh_access_token()\<close>: \<open>Ret True\<close> when the
  operation is to return its failure value. The refresh is only called when no token is
  held.
\<close>

definition no_token :: "publisher \<Rightarrow> world \<Rightarrow> bool res \<times> publisher \<times> world" where
  "no_token p w =
     (if truthy (access_token p) then (Ret False, p, w)
      else (case refresh_access_token p w of
              (Ret ok, p', w') \<Rightarrow> (Ret (\<not> ok), p', w')
            | (Raise e, p', w') \<Rightarrow> (Raise e, p', w')
            | (Exit n, p', w') \<Rightarrow> (Exit n, p', w')))"

text \<open>
  Paths, as \<^verbatim>\<open>pathlib\<close> has them on POSIX. A path object is held as its \<^verbatim>\<open>str\<close>.
  \<open>split_sep\<close> is \<^verbatim>\<open>s.split('/')\<close>. The components of a path are those that are
  neither empty nor a single dot; its root is \<open>/\<close>, or \<open>//\<close> for exactly two leading
  slashes. \<open>Path s\<close> is \<^verbatim>\<open>str(Path(s))\<close>, \<open>path_name\<close> is \<^verbatim>\<open>.name\<close> (the last
  component, empty when there is none) and \<open>path_join p b\<close> is \<^verbatim>\<open>p / b\<close>.
\<close>

fun split_sep :: "string \<Rightarrow> string list" where
  "split_sep [] = [[]]"
| "split_sep (c # cs) =
     (if c = CHR ''/'' then [] # split_sep cs
      else (case split_sep cs of [] \<Rightarrow> [[c]] | x # xs \<Rightarrow> (c # x) # xs))"

fun join_sep :: "string list \<Rightarrow> string" where
  "join_sep [] = []"
| "join_sep [x] = x"
| "join_sep (x # y # ys) = x @ ''/'' @ join_sep (y # ys)"

definition path_parts :: "string \<Rightarrow> string list" where
  "path_parts s = filter (\<lambda>x. x \<noteq> [] \<and> x \<noteq> ''.'') (split_sep s)"

definition path_root :: "string \<Rightarrow> string" where
  "path_root s =
     (if \<not> startswith s ''/'' then []
      else if startswith s ''//'' \<and> \<not> startswith s ''///'' then ''//''
      else ''/'')"

definition Path :: "string \<Rightarrow> string" where
  "Path s =
     (if path_root s = [] \<and> path_parts s = [] then ''.''
      else path_root s @ join_sep (path_parts s))"

definition path_name :: "string \<Rightarrow> string" where
  "path_name p = (case path_parts p of [] \<Rightarrow> [] | x # xs \<Rightarrow> last (x # xs))"

definition path_join :: "string \<Rightarrow> string \<Rightarrow> string" where
  "path_join p b =
     Path (if startswith b ''/'' then b
           else if p = [] \<or> last p = CHR ''/'' then p @ b
           else p @ ''/'' @ b)"

definition upload_request :: "publisher \<Rightarrow> world \<Rightarrow> string \<Rightarrow> request" where
  "upload_request p w bytes =
     \<lparr>meth = PUT, url = upload_url p,
      headers = get_headers p w @ [(''Content-Type'', ''application/zip'')],
      params = [], payload = Bytes bytes\<rparr>"

definition upload_extension :: "publisher \<Rightarrow> string \<Rightarrow> world \<Rightarrow> bool res \<times> publisher \<times> world" where
  "upload_extension p0 zip_path w0 =
     (case no_token p0 w0 of
        (Raise e, p, w1) \<Rightarrow> (Raise e, p, w1)
      | (Exit n, p, w1) \<Rightarrow> (Exit n, p, w1)
      | (Ret True, p, w1) \<Rightarrow> (Ret False, p, w1)
      | (Ret False, p, w1) \<Rightarrow>
          (let w2 = say (Uploading (path_name zip_path)) w1
           in case read_bytes w2 zip_path of
                None \<Rightarrow> (Ret False, p, say UploadError w2)
              | Some bytes \<Rightarrow>
                  (let (r, w3) = send (upload_request p w2 bytes) w2
                   in case r of
                        RequestException \<Rightarrow> (Ret False, p, say UploadError w3)
                      | OtherException e \<Rightarrow> (Ret False, p, say UploadError w3)
                      | Resp resp \<Rightarrow>
                          if status_code resp = 200
                          then (case json_body resp of
                                  Parsed (JObj result) \<Rightarrow>
                                    if map_of result ''uploadState'' = Some (JStr ''SUCCESS'')
                                    then (Ret True, p, say UploadedOk w3)
                                    else (Ret False, p,
                                          say (UploadFailed (dict_get result ''itemError'' (JStr ''Unknown error''))) w3)
                                | _ \<Rightarrow> (Ret False, p, say UploadError w3))
                          else (Ret False, p,
                                say (HttpError (status_code resp) (resp_text resp)) w3))))"

definition publish_request :: "publisher \<Rightarrow> world \<Rightarrow> string \<Rightarrow> request" where
  "publish_request p w target =
     \<lparr>meth = POST, url = publish_url p,
      headers = get_headers p w @ [(''Content-Length'', ''0'')],
      params = (if target = ''testers'' then [(''publishTarget'', ''trustedTesters'')] else []),
      payload = NoData\<rparr>"

definition publish_extension :: "publisher \<Rightarrow> string \<Rightarrow> world \<Rightarrow> bool res \<times> publisher \<times> world" where
  "publish_extension p0 target w0 =
     (case no_token p0 w0 of
        (Raise e, p, w1) \<Rightarrow> (Raise e, p, w1)
      | (Exit n, p, w1) \<Rightarrow> (Exit n, p, w1)
      | (Ret True, p, w1) \<Rightarrow> (Ret False, p, w1)
      | (Ret False, p, w1) \<Rightarrow>
          (let w2 = say (Publishing target) w1;
               (r, w3) = send (publish_request p w2 target) w2
           in case r of
                RequestException \<Rightarrow> (Ret False, p, say PublishError w3)
              | OtherException e \<Rightarrow> (Ret False, p, say PublishError w3)
              | Resp resp \<Rightarrow>
                  if status_code resp = 200
                  then (case json_body resp of
                          Parsed (JObj result) \<Rightarrow>
                            (let status = dict_get result ''status'' (JArr [])
                             in case py_in ''OK'' status of
                                  None \<Rightarrow> (Ret False, p, say PublishError w3)
                                | Some True \<Rightarrow> (Ret True, p, say PublishedOk w3)
                                | Some False \<Rightarrow> (Ret False, p, say (PublishFailed status) w3))
                        | _ \<Rightarrow> (Ret False, p, say PublishError w3))
                  else (Ret False, p, say (HttpError (status_code resp) (resp_text resp)) w3)))"

definition info_request :: "publisher \<Rightarrow> world \<Rightarrow> request" where
  "info_request p w =
     \<lparr>meth = GET, url = base_url p @ ''/items/'' @ extension_id p @ ''?projection=DRAFT'',
      headers = get_headers p w, params = [], payload = NoData\<rparr>"

text \<open>The result is the parsed document; \<open>JNull\<close> is Python's \<^verbatim>\<open>None\<close>.\<close>

definition get_extension_info :: "publisher \<Rightarrow> world \<Rightarrow> json res \<times> publisher \<times> world" where
  "get_extension_info p0 w0 =
     (case no_token p0 w0 of
        (Raise e, p, w1) \<Rightarrow> (Raise e, p, w1)
      | (Exit n, p, w1) \<Rightarrow> (Exit n, p, w1)
      | (Ret True, p, w1) \<Rightarrow> (Ret JNull, p, w1)
      | (Ret False, p, w1) \<Rightarrow>
          (let w2 = say FetchingInfo w1;
               (r, w3) = send (info_request p w2) w2
           in case r of
                RequestException \<Rightarrow> (Ret JNull, p, say InfoError w3)
              | OtherException e \<Rightarrow> (Ret JNull, p, say InfoError w3)
              | Resp resp \<Rightarrow>
                  if status_code resp = 200
                  then (case json_body resp of
                          Parsed doc \<Rightarrow> (Ret doc, p, w3)
                        | _ \<Rightarrow> (Ret JNull, p, say InfoError w3))
                  else (Ret JNull, p, say (HttpError (status_code resp) (resp_text resp)) w3)))"

subsection \<open>Credentials: the .env.cws file and the environment\<close>

text \<open>
  \<^verbatim>\<open>os.environ[key] = val\<close> raises for an empty name (OSError) and for an embedded
  NUL (ValueError); the name cannot contain \<open>=\<close> here, it is what stands before the
  first one. Both are caught by the handler of \<^verbatim>\<open>load_env_file\<close>.
\<close>

definition putenv_raises :: "string \<Rightarrow> string \<Rightarrow> bool" where
  "putenv_raises key val = (key = [] \<or> CHR 0x00 \<in> set key \<or> CHR 0x00 \<in> set val)"

text \<open>
  The loop of \<^verbatim>\<open>load_env_file\<close> over the lines of the file, with \<open>sp\<close> for
  \<^verbatim>\<open>str.strip\<close>: the environment so far is returned with \<open>False\<close> when an assignment
  raised (the handler then prints and returns False; the assignments made before it
  stay). \<^verbatim>\<open>line.split('=', 1)\<close> cuts the line at its first \<open>=\<close>.
\<close>

fun load_lines :: "(string \<Rightarrow> string) \<Rightarrow> string list \<Rightarrow> (string \<Rightarrow> string option)
    \<Rightarrow> bool \<times> (string \<Rightarrow> string option)" where
  "load_lines sp [] e = (True, e)"
| "load_lines sp (raw # rest) e =
     (let line = sp raw
      in if line \<noteq> [] \<and> \<not> startswith line ''#'' \<and> CHR ''='' \<in> set line
         then (let key = sp (takeWhile (\<lambda>c. c \<noteq> CHR ''='') line);
                   val = sp (tl (dropWhile (\<lambda>c. c \<noteq> CHR ''='') line))
               in if putenv_raises key val then (False, e)
                  else load_lines sp rest (e(key \<mapsto> val)))
         else load_lines sp rest e)"

definition load_env_file :: "world \<Rightarrow> bool \<times> world" where
  "load_env_file w =
     (let env_file = path_join (project_root w) ''.env.cws''
      in if path_exists w env_file
         then (let w1 = say LoadingEnvFile w
               in case read_lines w1 env_file of
                    None \<Rightarrow> (False, say EnvFileError w1)
                  | Some (lines, complete) \<Rightarrow>
                      (case load_lines (strip w1) lines (environ w1) of
                         (True, e) \<Rightarrow>
                           if complete then (True, w1\<lparr>environ := e\<rparr>)
                           else (False, say EnvFileError (w1\<lparr>environ := e\<rparr>))
                       | (False, e) \<Rightarrow> (False, say EnvFileError (w1\<lparr>environ := e\<rparr>))))
         else (False, w))"

definition required_vars :: "string list" where
  "required_vars = [''CWS_CLIENT_ID'', ''CWS_CLIENT_SECRET'', ''CWS_REFRESH_TOKEN'', ''CWS_EXTENSION_ID'']"

text \<open>
  The loop of \<^verbatim>\<open>get_env_vars\<close> over the required names, with its two accumulators;
  \<^verbatim>\<open>not value\<close> holds for an unset variable and for an empty one.
\<close>

fun scan_vars :: "(string \<Rightarrow> string option) \<Rightarrow> string list \<Rightarrow> string list \<Rightarrow> string list
    \<Rightarrow> string list \<times> string list" where
  "scan_vars e [] missing_vars vals = (missing_vars, vals)"
| "scan_vars e (var # vars) missing_vars vals =
     (case e var of
        None \<Rightarrow> scan_vars e vars (missing_vars @ [var]) (vals @ [[]])
      | Some v \<Rightarrow>
          if v = [] then scan_vars e vars (missing_vars @ [var]) (vals @ [[]])
          else scan_vars e vars missing_vars (vals @ [v]))"

text \<open>
  The four values are returned as a tuple, which \<^verbatim>\<open>main\<close> unpacks into four names
  (an unpacking of any other length would raise ValueError; there are always four).
\<close>

definition get_env_vars :: "world \<Rightarrow> (string \<times> string \<times> string \<times> string) res \<times> world" where
  "get_env_vars w0 =
     (let w1 = snd (load_env_file w0);
          (missing_vars, vals) = scan_vars (environ w1) required_vars [] []
      in if missing_vars \<noteq> []
         then (Exit 1,
               say HelpHint (say SetupHint
                 (foldl (\<lambda>w var. say (MissingVar var) w) (say MissingCredentials w1) missing_vars)))
         else (case vals of
                 [a, b, c, d] \<Rightarrow> (Ret (a, b, c, d), w1)
               | _ \<Rightarrow> (Raise ValueError, w1)))"

subsection \<open>Project discovery\<close>

text \<open>
  \<^verbatim>\<open>get_project_info\<close>: any exception of opening and parsing package.json, and the
  AttributeError of \<^verbatim>\<open>pkg_data.get\<close> on a parsed value that is not an object, is
  caught and ends the process with code 1.
\<close>

definition get_project_info :: "world \<Rightarrow> (string \<times> json) res \<times> world" where
  "get_project_info w =
     (let package_json = path_join (project_root w) ''package.json''
      in if \<not> path_exists w package_json then (Exit 1, say PackageJsonNotFound w)
         else (case load_json w package_json of
                 Some (JObj pkg_data) \<Rightarrow>
                   (Ret (project_root w, dict_get pkg_data ''version'' (JStr ''1.0.0'')), w)
               | _ \<Rightarrow> (Exit 1, say PackageJsonError w)))"

definition find_extension_zip :: "string \<Rightarrow> json \<Rightarrow> world \<Rightarrow> string res \<times> world" where
  "find_extension_zip root version w =
     (let builds_dir = path_join root ''builds'';
          zip_file = path_join builds_dir (''eksi-arti-v'' @ py_str w version @ ''.zip'')
      in if \<not> path_exists w zip_file
         then (Exit 1, say RunPackHint (say (PackageNotFound zip_file) w))
         else (Ret zip_file, w))"

subsection \<open>The command line driver\<close>

text \<open>
  The positional argument. The fifth choice, \<^verbatim>\<open>setup\<close>, runs the interactive wizard and
  returns before any of the code below (lines 399 to 401); the wizard is not modelled.
\<close>

datatype action = Upload | Publish | Testers | Info

text \<open>
  \<^verbatim>\<open>main\<close>, lines 403 to 424: credentials, project information, the package (the
  \<^verbatim>\<open>--zip\<close> argument, made a path, when it is given and not empty), the publisher
  object.
\<close>

definition main_prepare :: "string option \<Rightarrow> world \<Rightarrow> (publisher \<times> string) res \<times> world" where
  "main_prepare zip_arg w0 =
     (case get_env_vars w0 of
        (Exit n, w1) \<Rightarrow> (Exit n, w1)
      | (Raise e, w1) \<Rightarrow> (Raise e, w1)
      | (Ret (cid, secret, rtoken, eid), w1) \<Rightarrow>
          (case get_project_info w1 of
             (Exit n, w2) \<Rightarrow> (Exit n, w2)
           | (Raise e, w2) \<Rightarrow> (Raise e, w2)
           | (Ret (root, version), w2) \<Rightarrow>
               (case (case zip_arg of
                        None \<Rightarrow> find_extension_zip root version w2
                      | Some z \<Rightarrow>
                          if z = [] then find_extension_zip root version w2
                          else if \<not> path_exists w2 (Path z)
                               then (Exit 1, say (ZipNotFound (Path z)) w2)
                               else (Ret (Path z), w2)) of
                  (Exit n, w3) \<Rightarrow> (Exit n, w3)
                | (Raise e, w3) \<Rightarrow> (Raise e, w3)
                | (Ret zip_path, w3) \<Rightarrow>
                    (Ret (ChromeWebStorePublisher cid secret rtoken eid, zip_path),
                     say BlankLine (say (VersionLine version)
                       (say (PackageLine (path_name zip_path)) (say (ExtensionIdLine eid) w3)))))))"

text \<open>
  \<^verbatim>\<open>publisher.upload_extension(zip_path) and publisher.publish_extension(target)\<close>:
  the second call is made only when the first returned True.
\<close>

definition upload_and_publish :: "publisher \<Rightarrow> string \<Rightarrow> string \<Rightarrow> world \<Rightarrow> bool res \<times> world" where
  "upload_and_publish p zip_path target w =
     (case upload_extension p zip_path w of
        (Ret True, p1, w1) \<Rightarrow>
          (case publish_extension p1 target w1 of (r, p2, w2) \<Rightarrow> (r, w2))
      | (r, p1, w1) \<Rightarrow> (r, w1))"

text \<open>
  \<^verbatim>\<open>main\<close>, lines 426 to 450. The \<^verbatim>\<open>info\<close> branch has no \<^verbatim>\<open>else\<close>; its
  \<^verbatim>\<open>info.get\<close> raises AttributeError on a truthy document that is not an object.
\<close>

definition main_execute :: "action \<Rightarrow> publisher \<Rightarrow> string \<Rightarrow> world \<Rightarrow> unit res \<times> world" where
  "main_execute a p zip_path w =
     (case a of
        Info \<Rightarrow>
          (case get_extension_info p w of
             (Ret info, p1, w1) \<Rightarrow>
               if truthy info
               then (case info of
                       JObj d \<Rightarrow>
                         (Ret (),
                          say (InfoVersion (dict_get d ''version'' (JStr ''Unknown'')))
                            (say (InfoStatus (dict_get d ''status'' (JStr ''Unknown'')))
                              (say (InfoTitle (dict_get d ''title'' (JStr ''Unknown''))) w1)))
                     | _ \<Rightarrow> (Raise AttributeError, w1))
               else (Ret (), w1)
           | (Raise e, p1, w1) \<Rightarrow> (Raise e, w1)
           | (Exit n, p1, w1) \<Rightarrow> (Exit n, w1))
      | Upload \<Rightarrow>
          (case upload_extension p zip_path w of
             (Ret ok, p1, w1) \<Rightarrow> if ok then (Ret (), say UploadDone w1) else (Exit 1, w1)
           | (Raise e, p1, w1) \<Rightarrow> (Raise e, w1)
           | (Exit n, p1, w1) \<Rightarrow> (Exit n, w1))
      | Publish \<Rightarrow>
          (case upload_and_publish p zip_path ''default'' w of
             (Ret ok, w1) \<Rightarrow> if ok then (Ret (), say PublishDone w1) else (Exit 1, w1)
           | (Raise e, w1) \<Rightarrow> (Raise e, w1)
           | (Exit n, w1) \<Rightarrow> (Exit n, w1))
      | Testers \<Rightarrow>
          (case upload_and_publish p zip_path ''testers'' w of
             (Ret ok, w1) \<Rightarrow> if ok then (Ret (), say TestersDone w1) else (Exit 1, w1)
           | (Raise e, w1) \<Rightarrow> (Raise e, w1)
           | (Exit n, w1) \<Rightarrow> (Exit n, w1)))"

definition main :: "action \<Rightarrow> string option \<Rightarrow> world \<Rightarrow> unit res \<times> world" where
  "main a zip_arg w0 =
     (case main_prepare zip_arg w0 of
        (Ret (p, zip_path), w1) \<Rightarrow> main_execute a p zip_path w1
      | (Raise e, w1) \<Rightarrow> (Raise e, w1)
      | (Exit n, w1) \<Rightarrow> (Exit n, w1))"

subsection \<open>The calls issued during a run\<close>

text \<open>
  The HTTP calls issued between two worlds of one run, and the calls that carry an
  \<open>Authorization\<close> header.
\<close>

definition issued :: "world \<Rightarrow> world \<Rightarrow> request list" where
  "issued w w' = drop (length (trace w)) (trace w')"

definition authorized :: "request \<Rightarrow> bool" where
  "authorized rq = (''Authorization'' \<in> fst ` set (headers rq))"

subsection \<open>What a call may change\<close>

text \<open>Two publisher objects that differ at most in the access token held.\<close>

definition same_account :: "publisher \<Rightarrow> publisher \<Rightarrow> bool" where
  "same_account p p' =
     (client_id p' = client_id p \<and> client_secret p' = client_secret p \<and>
      refresh_token p' = refresh_token p \<and> extension_id p' = extension_id p \<and>
      base_url p' = base_url p \<and> upload_url p' = upload_url p \<and>
      publish_url p' = publish_url p)"

text \<open>Two worlds that differ at most in the printed lines and the environment.\<close>

definition same_files :: "world \<Rightarrow> world \<Rightarrow> bool" where
  "same_files w w' =
     (net w' = net w \<and> trace w' = trace w \<and> path_exists w' = path_exists w \<and>
      read_bytes w' = read_bytes w \<and> read_lines w' = read_lines w \<and>
      load_json w' = load_json w \<and> repr w' = repr w \<and> strip w' = strip w \<and>
      project_root w' = project_root w)"

subsection \<open>Example worlds\<close>

text \<open>
  A project at \<open>/proj\<close> with a package.json of version 1.2.3, the built package, the four
  credentials in the environment and no .env.cws file. The remote side is given by four
  answers: of the token endpoint, of the upload (PUT), of the publish call (POST) and of
  the info call (GET).

  The \<open>strip\<close> of the example worlds is that of CPython 3.9 and later. Its whitespace
  characters are U+0009 to U+000D, U+001C to U+0020, U+0085, U+00A0, U+1680, U+2000 to
  U+200A, U+2028, U+2029, U+202F, U+205F and U+3000, here in UTF-8; \<open>lstrip\<close> removes
  them from the front of a string (the number bounds the steps, and the length of the
  string is enough).
\<close>

definition whitespace :: "string list" where
  "whitespace =
     [[CHR 0x09], [CHR 0x0A], [CHR 0x0B], [CHR 0x0C], [CHR 0x0D],
      [CHR 0x1C], [CHR 0x1D], [CHR 0x1E], [CHR 0x1F], [CHR 0x20],
      [CHR 0xC2, CHR 0x85], [CHR 0xC2, CHR 0xA0], [CHR 0xE1, CHR 0x9A, CHR 0x80],
      [CHR 0xE2, CHR 0x80, CHR 0x80], [CHR 0xE2, CHR 0x80, CHR 0x81],
      [CHR 0xE2, CHR 0x80, CHR 0x82], [CHR 0xE2, CHR 0x80, CHR 0x83],
      [CHR 0xE2, CHR 0x80, CHR 0x84], [CHR 0xE2, CHR 0x80, CHR 0x85],
      [CHR 0xE2, CHR 0x80, CHR 0x86], [CHR 0xE2, CHR 0x80, CHR 0x87],
      [CHR 0xE2, CHR 0x80, CHR 0x88], [CHR 0xE2, CHR 0x80, CHR 0x89],
      [CHR 0xE2, CHR 0x80, CHR 0x8A], [CHR 0xE2, CHR 0x80, CHR 0xA8],
      [CHR 0xE2, CHR 0x80, CHR 0xA9], [CHR 0xE2, CHR 0x80, CHR 0xAF],
      [CHR 0xE2, CHR 0x81, CHR 0x9F], [CHR 0xE3, CHR 0x80, CHR 0x80]]"

fun lstrip :: "string list \<Rightarrow> nat \<Rightarrow> string \<Rightarrow> string" where
  "lstrip ws 0 s = s"
| "lstrip ws (Suc n) s =
     (case find (startswith s) ws of
        None \<Rightarrow> s
      | Some q \<Rightarrow> lstrip ws n (drop (length q) s))"

definition unicode_strip :: "string \<Rightarrow> string" where
  "unicode_strip s =
     (let t = lstrip whitespace (length s) s
      in rev (lstrip (map rev whitespace) (length t) (rev t)))"

definition demo_publisher :: publisher where
  "demo_publisher = ChromeWebStorePublisher ''id'' ''secret'' ''rtoken'' ''ext''"

definition resp :: "int \<Rightarrow> string \<Rightarrow> body \<Rightarrow> http_result" where
  "resp code txt j = Resp \<lparr>status_code = code, resp_text = txt, json_body = j\<rparr>"

definition answers :: "http_result \<Rightarrow> http_result \<Rightarrow> http_result \<Rightarrow> http_result
    \<Rightarrow> request list \<Rightarrow> request \<Rightarrow> http_result" where
  "answers tok up pub info hist rq =
     (if url rq = token_url then tok
      else case meth rq of PUT \<Rightarrow> up | POST \<Rightarrow> pub | GET \<Rightarrow> info)"

definition token_ok :: http_result where
  "token_ok = resp 200 ''{access_token: tok}'' (Parsed (JObj [(''access_token'', JStr ''tok'')]))"

definition upload_ok :: http_result where
  "upload_ok = resp 200 ''{uploadState: SUCCESS}'' (Parsed (JObj [(''uploadState'', JStr ''SUCCESS'')]))"

definition upload_rejected :: http_result where
  "upload_rejected = resp 200 ''{uploadState: FAILURE, itemError: bad zip}''
     (Parsed (JObj [(''uploadState'', JStr ''FAILURE''), (''itemError'', JStr ''bad zip'')]))"

definition publish_ok :: http_result where
  "publish_ok = resp 200 ''{status: [OK]}'' (Parsed (JObj [(''status'', JArr [JStr ''OK''])]))"

definition demo_zip :: string where
  "demo_zip = ''/proj/builds/eksi-arti-v1.2.3.zip''"

definition demo_world :: "(request list \<Rightarrow> request \<Rightarrow> http_result) \<Rightarrow> world" where
  "demo_world n =
     \<lparr>net = n, trace = [], out = [],
      environ = [''CWS_CLIENT_ID'' \<mapsto> ''id'', ''CWS_CLIENT_SECRET'' \<mapsto> ''secret'',
                 ''CWS_REFRESH_TOKEN'' \<mapsto> ''rtoken'', ''CWS_EXTENSION_ID'' \<mapsto> ''ext''],
      path_exists = (\<lambda>p. p = ''/proj/package.json'' \<or> p = ''/proj/builds/eksi-arti-v1.2.3.zip''),
      read_bytes = (\<lambda>p. if p = ''/proj/builds/eksi-arti-v1.2.3.zip'' then Some ''PK'' else None),
      read_lines = (\<lambda>p. None),
      load_json = (\<lambda>p. if p = ''/proj/package.json''
                          then Some (JObj [(''version'', JStr ''1.2.3'')]) else None),
      repr = (\<lambda>j. ''?''),
      strip = unicode_strip,
      project_root = ''/proj''\<rparr>"

definition publish_not_ok :: http_result where
  "publish_not_ok = resp 200 ''{status: NOT_OK}'' (Parsed (JObj [(''status'', JStr ''NOT_OK'')]))"

definition token_empty :: http_result where
  "token_empty = resp 200 ''{error: invalid_grant}'' (Parsed (JObj [(''error'', JStr ''invalid_grant'')]))"

text \<open>
  The same project with an empty environment and a .env.cws file of five lines, each
  ended by a line feed; the value of the last variable is a no-break space (U+00A0).
\<close>

definition envfile_world :: world where
  "envfile_world =
     (demo_world (answers token_ok upload_ok publish_ok RequestException))
       \<lparr>environ := Map.empty,
        path_exists := (\<lambda>p. p = ''/proj/.env.cws'' \<or> p = ''/proj/package.json'' \<or>
                             p = ''/proj/builds/eksi-arti-v1.2.3.zip''),
        read_lines := (\<lambda>p. if p = ''/proj/.env.cws''
                             then Some ([''# credentials'' @ [CHR 0x0A],
                                         ''CWS_CLIENT_ID = id'' @ [CHR 0x0A],
                                         ''CWS_CLIENT_SECRET=secret'' @ [CHR 0x0A],
                                         ''CWS_REFRESH_TOKEN=rtoken'' @ [CHR 0x0A],
                                         ''CWS_EXTENSION_ID='' @ [CHR 0xC2, CHR 0xA0, CHR 0x0A]],
                                        True)
                             else None)\<rparr>"

definition offline :: "request list \<Rightarrow> request \<Rightarrow> http_result" where
  "offline = answers RequestException RequestException RequestException RequestException"

definition no_package_json :: world where
  "no_package_json =
     (demo_world (answers token_ok upload_ok publish_ok RequestException))
       \<lparr>path_exists := (\<lambda>p. p = ''/tmp/my.zip'')\<rparr>"

definition token_down :: "request list \<Rightarrow> request \<Rightarrow> http_result" where
  "token_down = answers RequestException upload_ok publish_ok RequestException"

definition token_array :: http_result where
  "token_array = resp 200 ''[]'' (Parsed (JArr []))"

definition token_created :: http_result where
  "token_created = resp 201 ''{access_token: tok}'' (Parsed (JObj [(''access_token'', JStr ''tok'')]))"

definition server_error :: http_result where
  "server_error = resp 500 ''Internal Server Error'' JSONDecodeError"

definition upload_bad_request :: http_result where
  "upload_bad_request =
     resp 400 ''{itemError: bad zip}'' (Parsed (JObj [(''itemError'', JStr ''bad zip'')]))"

definition token_null :: http_result where
  "token_null = resp 200 ''null'' (Parsed JNull)"

definition token_deep :: http_result where
  "token_deep = resp 200 ''[[[[[[[[[['' (Raises RecursionError)"

text \<open>
  Two projects without a built package in \<open>builds\<close> but with a package at
  \<open>/tmp/my.zip\<close>: one whose package.json is as above, one whose package.json exists and
  cannot be parsed.
\<close>

definition custom_zip :: world where
  "custom_zip =
     (demo_world offline)
       \<lparr>path_exists := (\<lambda>p. p = ''/proj/package.json'' \<or> p = ''/tmp/my.zip'')\<rparr>"

definition broken_package_json :: world where
  "broken_package_json =
     (demo_world offline)
       \<lparr>path_exists := (\<lambda>p. p = ''/proj/package.json'' \<or> p = ''/tmp/my.zip''),
        load_json := (\<lambda>p. None)\<rparr>"

text \<open>The paths of the example project.\<close>

lemma demo_paths:
  "path_join ''/proj'' ''package.json'' = ''/proj/package.json''"
  "path_join ''/proj'' ''.env.cws'' = ''/proj/.env.cws''"
  "path_join ''/proj'' ''builds'' = ''/proj/builds''"
  "path_join ''/proj/builds'' ''eksi-arti-v1.2.3.zip'' = ''/proj/builds/eksi-arti-v1.2.3.zip''"
  "path_name ''/proj/builds/eksi-arti-v1.2.3.zip'' = ''eksi-arti-v1.2.3.zip''"
  "Path ''/tmp/my.zip'' = ''/tmp/my.zip''"
  "path_name ''/tmp/my.zip'' = ''my.zip''"
  by (simp_all add: Path_def path_name_def path_join_def path_parts_def path_root_def)

lemmas demo =
  demo_paths
  demo_publisher_def demo_world_def demo_zip_def answers_def resp_def token_ok_def upload_ok_def
  upload_rejected_def publish_ok_def publish_not_ok_def token_empty_def ChromeWebStorePublisher_def
  token_url_def token_request_def upload_request_def publish_request_def info_request_def
  get_headers_def py_str_def dict_get_def say_def send_def Let_def
  envfile_world_def offline_def no_package_json_def token_down_def
  token_array_def token_created_def server_error_def upload_bad_request_def token_null_def
  token_deep_def custom_zip_def broken_package_json_def

lemmas run =
  main_def main_prepare_def main_execute_def upload_and_publish_def get_env_vars_def
  load_env_file_def required_vars_def get_project_info_def find_extension_zip_def
  upload_extension_def publish_extension_def get_extension_info_def no_token_def
  refresh_access_token_def putenv_raises_def unicode_strip_def whitespace_def

subsection \<open>What a call leaves unchanged\<close>

lemma say_simps [simp]:
  "trace (say m w) = trace w" "net (say m w) = net w" "repr (say m w) = repr w"
  "read_bytes (say m w) = read_bytes w" "path_exists (say m w) = path_exists w"
  "environ (say m w) = environ w" "load_json (say m w) = load_json w"
  "read_lines (say m w) = read_lines w" "project_root (say m w) = project_root w"
  "strip (say m w) = strip w"
  "out (say m w) = out w @ [m]"
  by (simp_all add: say_def)

lemma send_simps [simp]:
  "fst (send rq w) = net w (trace w) rq"
  "trace (snd (send rq w)) = trace w @ [rq]" "net (snd (send rq w)) = net w"
  "repr (snd (send rq w)) = repr w"
  "read_bytes (snd (send rq w)) = read_bytes w" "path_exists (snd (send rq w)) = path_exists w"
  "environ (snd (send rq w)) = environ w" "load_json (snd (send rq w)) = load_json w"
  "read_lines (snd (send rq w)) = read_lines w" "project_root (snd (send rq w)) = project_root w"
  "strip (snd (send rq w)) = strip w"
  "out (snd (send rq w)) = out w"
  by (simp_all add: send_def)

lemma py_str_repr: "repr w' = repr w \<Longrightarrow> py_str w' j = py_str w j"
  by (simp add: py_str_def split: json.splits)

lemma request_repr:
  assumes "repr w' = repr w"
  shows "get_headers p w' = get_headers p w" "upload_request p w' b = upload_request p w b"
    "publish_request p w' t = publish_request p w t" "info_request p w' = info_request p w"
  using py_str_repr [OF assms]
  by (simp_all add: get_headers_def upload_request_def publish_request_def info_request_def)

lemma request_say [simp]:
  "upload_request p (say m w) b = upload_request p w b"
  "publish_request p (say m w) t = publish_request p w t"
  "info_request p (say m w) = info_request p w"
  by (simp_all add: request_repr [of "say m w" w])

lemma refresh_frame:
  "refresh_access_token p w = (r, p', w') \<Longrightarrow>
     trace w' = trace w @ [token_request p] \<and> net w' = net w \<and> repr w' = repr w \<and>
     read_bytes w' = read_bytes w"
  by (auto simp: refresh_access_token_def Let_def split_beta
           split: http_result.splits body.splits json.splits if_splits)

lemma same_account_refl [simp]: "same_account p p"
  by (simp add: same_account_def)

lemma same_account_token [simp]: "same_account p (p\<lparr>access_token := t\<rparr>)"
  by (simp add: same_account_def)

lemma same_account_requests:
  assumes "same_account p p'"
  shows "token_request p' = token_request p" "url (upload_request p' w b) = upload_url p"
    "url (publish_request p' w t) = publish_url p"
    "url (info_request p' w) = base_url p @ ''/items/'' @ extension_id p @ ''?projection=DRAFT''"
  using assms
  by (simp_all add: same_account_def token_request_def upload_request_def publish_request_def
        info_request_def)

lemma refresh_result:
  "refresh_access_token p w = (r, p', w') \<Longrightarrow>
     same_account p p' \<and>
     (r = Ret True \<and> truthy (access_token p') \<or> r = Ret False \<or> (\<exists>e. r = Raise e))"
  by (auto simp: refresh_access_token_def Let_def split_beta
           split: http_result.splits body.splits json.splits if_splits)

lemma no_token_frame:
  "no_token p w = (r, p', w') \<Longrightarrow>
     net w' = net w \<and> repr w' = repr w \<and> read_bytes w' = read_bytes w \<and>
     trace w' = trace w @ (if truthy (access_token p) then [] else [token_request p])"
  by (auto simp: no_token_def split: if_splits prod.splits res.splits dest: refresh_frame)

lemma no_token_result:
  "no_token p w = (r, p', w') \<Longrightarrow>
     same_account p p' \<and>
     (r = Ret False \<and> truthy (access_token p') \<or>
      \<not> truthy (access_token p) \<and> (r = Ret True \<or> (\<exists>e. r = Raise e)))"
  by (auto simp: no_token_def split: if_splits prod.splits res.splits dest: refresh_result)

lemma demo_refresh:
  "no_token demo_publisher (demo_world (answers token_ok up pub info))
     = (Ret False, demo_publisher\<lparr>access_token := JStr ''tok''\<rparr>,
        (demo_world (answers token_ok up pub info))
          \<lparr>trace := [token_request demo_publisher], out := [RefreshingToken, TokenRefreshed]\<rparr>)"
  by (simp add: no_token_def refresh_access_token_def demo)

subsection \<open>The steps of main before the first HTTP call\<close>

lemma same_files_refl [simp]: "same_files w w"
  by (simp add: same_files_def)

lemma same_files_say [simp]: "same_files w (say m w') = same_files w w'"
  by (simp add: same_files_def)

lemma same_files_environ [simp]: "same_files w (w'\<lparr>environ := e\<rparr>) = same_files w w'"
  by (simp add: same_files_def)

lemma same_files_says [simp]:
  "same_files w (foldl (\<lambda>w var. say (f var) w) w' xs) = same_files w w'"
  by (induction xs arbitrary: w') simp_all

lemma load_env_file_same: "same_files w (snd (load_env_file w))"
  by (simp add: load_env_file_def Let_def split: option.splits prod.splits bool.splits)

lemma scan_vars_eq:
  "scan_vars e vars missing_vars vals =
     (missing_vars @ filter (\<lambda>var. e var = None \<or> e var = Some []) vars,
      vals @ map (\<lambda>var. case e var of None \<Rightarrow> [] | Some v \<Rightarrow> v) vars)"
  by (induction vars arbitrary: missing_vars vals) (auto split: option.splits)

lemma get_env_vars_same: "same_files w (snd (get_env_vars w))"
  using load_env_file_same [of w]
  by (simp add: get_env_vars_def scan_vars_eq required_vars_def Let_def)

lemma get_env_vars_missing:
  assumes "\<exists>var \<in> set required_vars.
             environ (snd (load_env_file w)) var = None \<or> environ (snd (load_env_file w)) var = Some []"
  shows "fst (get_env_vars w) = Exit 1"
proof -
  from assms have "filter (\<lambda>var. environ (snd (load_env_file w)) var = None \<or>
      environ (snd (load_env_file w)) var = Some []) required_vars \<noteq> []"
    by (simp add: filter_empty_conv)
  then show ?thesis
    by (simp add: get_env_vars_def scan_vars_eq Let_def)
qed

lemma get_env_vars_returns:
  assumes "get_env_vars w = (Ret (cid, secret, rtoken, eid), w')"
  shows "w' = snd (load_env_file w) \<and>
         environ w' ''CWS_CLIENT_ID'' = Some cid \<and> cid \<noteq> [] \<and>
         environ w' ''CWS_CLIENT_SECRET'' = Some secret \<and> secret \<noteq> [] \<and>
         environ w' ''CWS_REFRESH_TOKEN'' = Some rtoken \<and> rtoken \<noteq> [] \<and>
         environ w' ''CWS_EXTENSION_ID'' = Some eid \<and> eid \<noteq> []"
  using assms
  by (simp add: get_env_vars_def scan_vars_eq required_vars_def Let_def
           split: if_splits option.splits)

lemma get_env_vars_result:
  "fst (get_env_vars w) = Exit 1 \<or> (\<exists>v. fst (get_env_vars w) = Ret v)"
  by (simp add: get_env_vars_def scan_vars_eq required_vars_def Let_def)


lemma get_project_info_cases:
  "get_project_info w = (r, w') \<Longrightarrow>
     same_files w w' \<and>
     (r = Exit 1 \<or>
      (\<exists>version. r = Ret (project_root w, version) \<and>
         path_exists w (path_join (project_root w) ''package.json'')))"
  by (auto simp: get_project_info_def Let_def split: if_splits option.splits json.splits)

lemma find_extension_zip_cases:
  "find_extension_zip root version w = (r, w') \<Longrightarrow>
     same_files w w' \<and> (r = Exit 1 \<or> (\<exists>z. r = Ret z \<and> path_exists w z))"
  by (auto simp: find_extension_zip_def Let_def split: if_splits)

lemma main_prepare_cases:
  assumes "main_prepare zip_arg w = (r, w')"
  shows "same_files w w' \<and>
     (r = Exit 1 \<or>
      (\<exists>cid secret rtoken eid zip_path.
         r = Ret (ChromeWebStorePublisher cid secret rtoken eid, zip_path) \<and>
         fst (get_env_vars w) = Ret (cid, secret, rtoken, eid) \<and>
         path_exists w (path_join (project_root w) ''package.json'') \<and>
         path_exists w zip_path))"
proof -
  obtain r1 w1 where e1: "get_env_vars w = (r1, w1)" by (cases "get_env_vars w") auto
  have s1: "same_files w w1" using get_env_vars_same [of w] e1 by simp
  obtain r2 w2 where e2: "get_project_info w1 = (r2, w2)" by (cases "get_project_info w1") auto
  note c2 = get_project_info_cases [OF e2]
  from get_env_vars_result [of w] e1 have "r1 = Exit 1 \<or> (\<exists>v. r1 = Ret v)" by simp
  then show ?thesis
  proof
    assume "r1 = Exit 1"
    with assms e1 s1 show ?thesis by (auto simp: main_prepare_def)
  next
    assume "\<exists>v. r1 = Ret v"
    then obtain cid secret rtoken eid where r1: "r1 = Ret (cid, secret, rtoken, eid)"
      by (metis prod_cases4)
    from c2 have "r2 = Exit 1 \<or> (\<exists>version. r2 = Ret (project_root w1, version))" by blast
    then show ?thesis
    proof
      assume "r2 = Exit 1"
      with assms e1 e2 r1 s1 c2 show ?thesis
        by (auto simp: main_prepare_def same_files_def)
    next
      assume "\<exists>version. r2 = Ret (project_root w1, version)"
      then obtain version where r2: "r2 = Ret (project_root w1, version)" by blast
      with c2 have pj: "path_exists w1 (path_join (project_root w1) ''package.json'')" by blast
      have s2: "same_files w w2" using s1 c2 by (simp add: same_files_def)
      obtain r3 w3 where e3: "find_extension_zip (project_root w1) version w2 = (r3, w3)"
        by (cases "find_extension_zip (project_root w1) version w2") auto
      note c3 = find_extension_zip_cases [OF e3]
      show ?thesis
        using assms e1 r1 e2 r2 e3 c3 s1 s2 pj
        by (auto simp: main_prepare_def same_files_def split: option.splits if_splits)
    qed
  qed
qed

subsection \<open>The calls of the three operations\<close>

lemma no_token_split:
  obtains p1 w1 where "no_token p w = (Ret False, p1, w1)" "truthy (access_token p1)"
  | p1 w1 where "no_token p w = (Ret True, p1, w1)" "\<not> truthy (access_token p)"
  | e p1 w1 where "no_token p w = (Raise e, p1, w1)" "\<not> truthy (access_token p)"
proof -
  obtain r0 p1 w1 where g: "no_token p w = (r0, p1, w1)"
    by (cases "no_token p w") auto
  from no_token_result [OF g]
  have "r0 = Ret False \<and> truthy (access_token p1) \<or>
      \<not> truthy (access_token p) \<and> (r0 = Ret True \<or> (\<exists>e. r0 = Raise e))" by simp
  then consider "r0 = Ret False" "truthy (access_token p1)"
    | "\<not> truthy (access_token p)" "r0 = Ret True"
    | e where "\<not> truthy (access_token p)" "r0 = Raise e" by auto
  then show thesis
  proof cases
    case 1 with g that(1) show thesis by simp
  next
    case 2 with g that(2) show thesis by simp
  next
    case 3 with g that(3) show thesis by simp
  qed
qed

lemma no_token_trace:
  "trace (snd (snd (no_token p w))) =
     trace w @ (if truthy (access_token p) then [] else [token_request p])"
  using no_token_frame [of p w "fst (no_token p w)" "fst (snd (no_token p w))" "snd (snd (no_token p w))"]
  by simp

lemma no_token_account: "same_account p (fst (snd (no_token p w)))"
  using no_token_result [of p w "fst (no_token p w)" "fst (snd (no_token p w))" "snd (snd (no_token p w))"]
  by simp

lemma no_token_held: "truthy (access_token p) \<Longrightarrow> no_token p w = (Ret False, p, w)"
  by (simp add: no_token_def)

lemma no_token_passed:
  "fst (no_token p w) = Ret False \<Longrightarrow> truthy (access_token (fst (snd (no_token p w))))"
  by (cases rule: no_token_split [of p w]) simp_all

lemma upload_frame:
  "net (snd (snd (upload_extension p zip_path w))) = net w \<and>
   repr (snd (snd (upload_extension p zip_path w))) = repr w \<and>
   read_bytes (snd (snd (upload_extension p zip_path w))) = read_bytes w \<and>
   fst (snd (upload_extension p zip_path w)) = fst (snd (no_token p w))"
proof (cases rule: no_token_split [of p w])
  case (1 p1 w1)
  from no_token_frame [OF 1(1)] show ?thesis
    by (simp add: upload_extension_def 1 send_def Let_def
             split: option.splits http_result.splits body.splits json.splits)
next
  case (2 p1 w1)
  from no_token_frame [OF 2(1)] show ?thesis by (simp add: upload_extension_def 2)
next
  case (3 e p1 w1)
  from no_token_frame [OF 3(1)] show ?thesis by (simp add: upload_extension_def 3)
qed

lemma upload_trace:
  "trace (snd (snd (upload_extension p zip_path w))) =
     trace (snd (snd (no_token p w))) @
     (if fst (no_token p w) = Ret False
      then (case read_bytes w zip_path of
              None \<Rightarrow> []
            | Some bytes \<Rightarrow> [upload_request (fst (snd (no_token p w))) w bytes])
      else [])"
proof (cases rule: no_token_split [of p w])
  case (1 p1 w1)
  from no_token_frame [OF 1(1)] have fr0: "read_bytes w1 = read_bytes w" "repr w1 = repr w"
    by simp_all
  note fr = fr0(1) request_repr(2) [OF fr0(2)]
  show ?thesis
  proof (cases "read_bytes w zip_path")
    case None
    then show ?thesis by (simp add: upload_extension_def 1 fr)
  next
    case (Some bytes)
    then show ?thesis
      by (simp add: upload_extension_def 1 fr send_def Let_def
               split: option.splits http_result.splits body.splits json.splits)
  qed
next
  case (2 p1 w1)
  show ?thesis by (simp add: upload_extension_def 2)
next
  case (3 e p1 w1)
  show ?thesis by (simp add: upload_extension_def 3)
qed

lemma upload_result:
  "fst (upload_extension p zip_path w) = Ret True \<or>
   fst (upload_extension p zip_path w) = Ret False \<or>
   (\<exists>e. fst (upload_extension p zip_path w) = Raise e \<and> fst (no_token p w) = Raise e)"
proof (cases rule: no_token_split [of p w])
  case (1 p1 w1)
  show ?thesis
    by (simp add: upload_extension_def 1 send_def Let_def
             split: option.splits http_result.splits body.splits json.splits)
next
  case (2 p1 w1)
  show ?thesis by (simp add: upload_extension_def 2)
next
  case (3 e p1 w1)
  show ?thesis by (simp add: upload_extension_def 3)
qed

lemma upload_not_reached:
  assumes "fst (no_token p w) \<noteq> Ret False \<or> read_bytes w zip_path = None"
  shows "fst (upload_extension p zip_path w) \<noteq> Ret True"
proof (cases rule: no_token_split [of p w])
  case (1 p1 w1)
  from no_token_frame [OF 1(1)] have fr: "read_bytes w1 = read_bytes w" by simp
  from assms 1 have "read_bytes w zip_path = None" by simp
  then show ?thesis
    by (simp add: upload_extension_def 1 fr)
next
  case (2 p1 w1)
  show ?thesis by (simp add: upload_extension_def 2)
next
  case (3 e p1 w1)
  show ?thesis by (simp add: upload_extension_def 3)
qed

lemma publish_frame:
  "net (snd (snd (publish_extension p target w))) = net w \<and>
   repr (snd (snd (publish_extension p target w))) = repr w \<and>
   read_bytes (snd (snd (publish_extension p target w))) = read_bytes w \<and>
   fst (snd (publish_extension p target w)) = fst (snd (no_token p w))"
proof (cases rule: no_token_split [of p w])
  case (1 p1 w1)
  from no_token_frame [OF 1(1)] show ?thesis
    by (simp add: publish_extension_def 1 send_def Let_def
             split: option.splits http_result.splits body.splits json.splits bool.splits)
next
  case (2 p1 w1)
  from no_token_frame [OF 2(1)] show ?thesis by (simp add: publish_extension_def 2)
next
  case (3 e p1 w1)
  from no_token_frame [OF 3(1)] show ?thesis by (simp add: publish_extension_def 3)
qed

lemma publish_trace:
  "trace (snd (snd (publish_extension p target w))) =
     trace (snd (snd (no_token p w))) @
     (if fst (no_token p w) = Ret False
      then [publish_request (fst (snd (no_token p w))) w target] else [])"
proof (cases rule: no_token_split [of p w])
  case (1 p1 w1)
  from no_token_frame [OF 1(1)] have fr0: "repr w1 = repr w" by simp
  note fr = request_repr(3) [OF fr0]
  show ?thesis
    by (simp add: publish_extension_def 1 fr send_def Let_def
             split: option.splits http_result.splits body.splits json.splits bool.splits)
next
  case (2 p1 w1)
  show ?thesis by (simp add: publish_extension_def 2)
next
  case (3 e p1 w1)
  show ?thesis by (simp add: publish_extension_def 3)
qed

lemma publish_result:
  "fst (publish_extension p target w) = Ret True \<or>
   fst (publish_extension p target w) = Ret False \<or>
   (\<exists>e. fst (publish_extension p target w) = Raise e \<and> fst (no_token p w) = Raise e)"
proof (cases rule: no_token_split [of p w])
  case (1 p1 w1)
  show ?thesis
    by (simp add: publish_extension_def 1 send_def Let_def
             split: option.splits http_result.splits body.splits json.splits bool.splits)
next
  case (2 p1 w1)
  show ?thesis by (simp add: publish_extension_def 2)
next
  case (3 e p1 w1)
  show ?thesis by (simp add: publish_extension_def 3)
qed

lemma info_frame:
  "net (snd (snd (get_extension_info p w))) = net w \<and>
   repr (snd (snd (get_extension_info p w))) = repr w \<and>
   read_bytes (snd (snd (get_extension_info p w))) = read_bytes w \<and>
   fst (snd (get_extension_info p w)) = fst (snd (no_token p w))"
proof (cases rule: no_token_split [of p w])
  case (1 p1 w1)
  from no_token_frame [OF 1(1)] show ?thesis
    by (simp add: get_extension_info_def 1 send_def Let_def
             split: option.splits http_result.splits body.splits)
next
  case (2 p1 w1)
  from no_token_frame [OF 2(1)] show ?thesis by (simp add: get_extension_info_def 2)
next
  case (3 e p1 w1)
  from no_token_frame [OF 3(1)] show ?thesis by (simp add: get_extension_info_def 3)
qed

lemma info_trace:
  "trace (snd (snd (get_extension_info p w))) =
     trace (snd (snd (no_token p w))) @
     (if fst (no_token p w) = Ret False
      then [info_request (fst (snd (no_token p w))) w] else [])"
proof (cases rule: no_token_split [of p w])
  case (1 p1 w1)
  from no_token_frame [OF 1(1)] have fr0: "repr w1 = repr w" by simp
  note fr = request_repr(4) [OF fr0]
  show ?thesis
    by (simp add: get_extension_info_def 1 fr send_def Let_def
             split: option.splits http_result.splits body.splits)
next
  case (2 p1 w1)
  show ?thesis by (simp add: get_extension_info_def 2)
next
  case (3 e p1 w1)
  show ?thesis by (simp add: get_extension_info_def 3)
qed

lemma info_result:
  "(\<exists>doc. fst (get_extension_info p w) = Ret doc) \<or>
   (\<exists>e. fst (get_extension_info p w) = Raise e \<and> fst (no_token p w) = Raise e)"
proof (cases rule: no_token_split [of p w])
  case (1 p1 w1)
  show ?thesis
    by (simp add: get_extension_info_def 1 send_def Let_def
             split: option.splits http_result.splits body.splits)
next
  case (2 p1 w1)
  show ?thesis by (simp add: get_extension_info_def 2)
next
  case (3 e p1 w1)
  show ?thesis by (simp add: get_extension_info_def 3)
qed

lemma upload_and_publish_eq:
  "upload_and_publish p zip_path target w =
     (if fst (upload_extension p zip_path w) = Ret True
      then (fst (publish_extension (fst (snd (upload_extension p zip_path w))) target
                   (snd (snd (upload_extension p zip_path w)))),
            snd (snd (publish_extension (fst (snd (upload_extension p zip_path w))) target
                   (snd (snd (upload_extension p zip_path w))))))
      else (fst (upload_extension p zip_path w), snd (snd (upload_extension p zip_path w))))"
proof -
  obtain r p1 w1 where u: "upload_extension p zip_path w = (r, p1, w1)"
    by (cases "upload_extension p zip_path w") auto
  show ?thesis
  proof (cases r)
    case (Ret b)
    then show ?thesis
      by (cases b) (simp_all add: upload_and_publish_def u split: prod.splits)
  next
    case (Raise e)
    then show ?thesis by (simp add: upload_and_publish_def u)
  next
    case (Exit n)
    then show ?thesis by (simp add: upload_and_publish_def u)
  qed
qed

lemma upload_and_publish_result:
  "fst (upload_and_publish p zip_path target w) = Ret True \<or>
   fst (upload_and_publish p zip_path target w) = Ret False \<or>
   (\<exists>e. fst (upload_and_publish p zip_path target w) = Raise e)"
  using upload_result [of p zip_path w]
    publish_result [of "fst (snd (upload_extension p zip_path w))" target
                       "snd (snd (upload_extension p zip_path w))"]
  by (auto simp: upload_and_publish_eq)

text \<open>What \<open>main_execute\<close> adds to the world after its calls are lines of output only.\<close>

lemma main_execute_trace:
  "trace (snd (main_execute a p zip_path w)) =
     (case a of
        Info \<Rightarrow> trace (snd (snd (get_extension_info p w)))
      | Upload \<Rightarrow> trace (snd (snd (upload_extension p zip_path w)))
      | Publish \<Rightarrow> trace (snd (upload_and_publish p zip_path ''default'' w))
      | Testers \<Rightarrow> trace (snd (upload_and_publish p zip_path ''testers'' w)))"
proof (cases a)
  case Upload
  obtain r p1 w1 where u: "upload_extension p zip_path w = (r, p1, w1)"
    by (cases "upload_extension p zip_path w") auto
  from Upload show ?thesis
    by (cases r) (simp_all add: main_execute_def u)
next
  case Publish
  obtain r w1 where u: "upload_and_publish p zip_path ''default'' w = (r, w1)"
    by (cases "upload_and_publish p zip_path ''default'' w") auto
  from Publish show ?thesis
    by (cases r) (simp_all add: main_execute_def u)
next
  case Testers
  obtain r w1 where u: "upload_and_publish p zip_path ''testers'' w = (r, w1)"
    by (cases "upload_and_publish p zip_path ''testers'' w") auto
  from Testers show ?thesis
    by (cases r) (simp_all add: main_execute_def u)
next
  case Info
  obtain r p1 w1 where u: "get_extension_info p w = (r, p1, w1)"
    by (cases "get_extension_info p w") auto
  from Info show ?thesis
    by (cases r) (simp_all add: main_execute_def u split: json.splits)
qed

lemma main_execute_publish_result:
  assumes "a = Publish \<or> a = Testers"
  shows "fst (main_execute a p zip_path w) =
     (case fst (upload_and_publish p zip_path (if a = Testers then ''testers'' else ''default'') w) of
        Ret ok \<Rightarrow> if ok then Ret () else Exit 1
      | Raise e \<Rightarrow> Raise e
      | Exit n \<Rightarrow> Exit n)"
proof -
  obtain r w1 where u: "upload_and_publish p zip_path (if a = Testers then ''testers'' else ''default'') w = (r, w1)"
    by (cases "upload_and_publish p zip_path (if a = Testers then ''testers'' else ''default'') w") auto
  from assms u show ?thesis
    by (cases r) (auto simp: main_execute_def)
qed

subsection \<open>The calls of a run of main\<close>

lemma issued_append: "trace w' = trace w @ xs \<Longrightarrow> issued w w' = xs"
  by (simp add: issued_def)

lemma publisher_urls:
  assumes "same_account (ChromeWebStorePublisher cid secret rtoken eid) p"
  shows "token_url \<noteq> publish_url p" "upload_url p \<noteq> publish_url p"
    "base_url p @ ''/items/'' @ extension_id p @ ''?projection=DRAFT'' \<noteq> publish_url p"
  using assms
  by (simp_all add: same_account_def ChromeWebStorePublisher_def token_url_def)

lemma upload_issued:
  "issued w (snd (snd (upload_extension p zip_path w))) =
     (if truthy (access_token p) then [] else [token_request p]) @
     (if fst (no_token p w) = Ret False
      then (case read_bytes w zip_path of
              None \<Rightarrow> []
            | Some bytes \<Rightarrow> [upload_request (fst (snd (no_token p w))) w bytes])
      else [])"
  by (rule issued_append) (simp add: upload_trace no_token_trace)

lemma publish_issued:
  "issued w (snd (snd (publish_extension p target w))) =
     (if truthy (access_token p) then [] else [token_request p]) @
     (if fst (no_token p w) = Ret False
      then [publish_request (fst (snd (no_token p w))) w target] else [])"
  by (rule issued_append) (simp add: publish_trace no_token_trace)

lemma info_issued:
  "issued w (snd (snd (get_extension_info p w))) =
     (if truthy (access_token p) then [] else [token_request p]) @
     (if fst (no_token p w) = Ret False
      then [info_request (fst (snd (no_token p w))) w] else [])"
  by (rule issued_append) (simp add: info_trace no_token_trace)

lemma upload_success:
  assumes "upload_extension p zip_path w = (Ret True, p1, w2)"
  shows "truthy (access_token p1)" "same_account p p1" "repr w2 = repr w" "net w2 = net w"
proof -
  from assms have t: "fst (upload_extension p zip_path w) = Ret True" by simp
  with upload_not_reached [of p w zip_path] have g: "fst (no_token p w) = Ret False" by blast
  from upload_frame [of p zip_path w] assms
  have f: "p1 = fst (snd (no_token p w))" "repr w2 = repr w" "net w2 = net w" by simp_all
  from no_token_passed [OF g] f show "truthy (access_token p1)" by simp
  from no_token_account [of p w] f show "same_account p p1" by simp
  from f show "repr w2 = repr w" "net w2 = net w" by simp_all
qed

lemma upload_issued_shape:
  obtains A B where "issued w (snd (snd (upload_extension p zip_path w))) = A @ B"
    "A = [] \<and> truthy (access_token p) \<or> A = [token_request p] \<and> \<not> truthy (access_token p)"
    "B = [] \<or> (\<exists>bytes. B = [upload_request (fst (snd (no_token p w))) w bytes] \<and>
        fst (no_token p w) = Ret False \<and> read_bytes w zip_path = Some bytes)"
proof -
  let ?A = "if truthy (access_token p) then [] else [token_request p]"
  let ?B = "if fst (no_token p w) = Ret False
      then (case read_bytes w zip_path of
              None \<Rightarrow> []
            | Some bytes \<Rightarrow> [upload_request (fst (snd (no_token p w))) w bytes])
      else []"
  have "issued w (snd (snd (upload_extension p zip_path w))) = ?A @ ?B"
    by (rule upload_issued)
  moreover have "?A = [] \<and> truthy (access_token p) \<or>
      ?A = [token_request p] \<and> \<not> truthy (access_token p)" by simp
  moreover have "?B = [] \<or> (\<exists>bytes. ?B = [upload_request (fst (snd (no_token p w))) w bytes] \<and>
        fst (no_token p w) = Ret False \<and> read_bytes w zip_path = Some bytes)"
    by (cases "read_bytes w zip_path") simp_all
  ultimately show thesis by (rule that)
qed

lemma publish_issued_shape:
  obtains A B where "issued w (snd (snd (publish_extension p target w))) = A @ B"
    "A = [] \<and> truthy (access_token p) \<or> A = [token_request p] \<and> \<not> truthy (access_token p)"
    "B = [] \<and> fst (no_token p w) \<noteq> Ret False \<or>
     B = [publish_request (fst (snd (no_token p w))) w target] \<and> fst (no_token p w) = Ret False"
proof -
  let ?A = "if truthy (access_token p) then [] else [token_request p]"
  let ?B = "if fst (no_token p w) = Ret False
      then [publish_request (fst (snd (no_token p w))) w target] else []"
  have "issued w (snd (snd (publish_extension p target w))) = ?A @ ?B"
    by (rule publish_issued)
  moreover have "?A = [] \<and> truthy (access_token p) \<or>
      ?A = [token_request p] \<and> \<not> truthy (access_token p)" by simp
  moreover have "?B = [] \<and> fst (no_token p w) \<noteq> Ret False \<or>
     ?B = [publish_request (fst (snd (no_token p w))) w target] \<and> fst (no_token p w) = Ret False"
    by simp
  ultimately show thesis by (rule that)
qed

lemma info_issued_shape:
  obtains A B where "issued w (snd (snd (get_extension_info p w))) = A @ B"
    "A = [] \<and> truthy (access_token p) \<or> A = [token_request p] \<and> \<not> truthy (access_token p)"
    "B = [] \<and> fst (no_token p w) \<noteq> Ret False \<or>
     B = [info_request (fst (snd (no_token p w))) w] \<and> fst (no_token p w) = Ret False"
proof -
  let ?A = "if truthy (access_token p) then [] else [token_request p]"
  let ?B = "if fst (no_token p w) = Ret False
      then [info_request (fst (snd (no_token p w))) w] else []"
  have "issued w (snd (snd (get_extension_info p w))) = ?A @ ?B"
    by (rule info_issued)
  moreover have "?A = [] \<and> truthy (access_token p) \<or>
      ?A = [token_request p] \<and> \<not> truthy (access_token p)" by simp
  moreover have "?B = [] \<and> fst (no_token p w) \<noteq> Ret False \<or>
     ?B = [info_request (fst (snd (no_token p w))) w] \<and> fst (no_token p w) = Ret False"
    by simp
  ultimately show thesis by (rule that)
qed

lemma upload_urls:
  assumes "rq \<in> set (issued w (snd (snd (upload_extension p zip_path w))))"
  shows "(url rq = token_url \<or> url rq = upload_url p) \<and> params rq = []"
proof -
  have u: "url (upload_request (fst (snd (no_token p w))) w b) = upload_url p" for b
    using no_token_account [of p w] by (simp add: same_account_requests)
  obtain A B where ab: "issued w (snd (snd (upload_extension p zip_path w))) = A @ B"
    "A = [] \<and> truthy (access_token p) \<or> A = [token_request p] \<and> \<not> truthy (access_token p)"
    "B = [] \<or> (\<exists>bytes. B = [upload_request (fst (snd (no_token p w))) w bytes] \<and>
        fst (no_token p w) = Ret False \<and> read_bytes w zip_path = Some bytes)"
    by (rule upload_issued_shape)
  from assms ab(1) have "rq \<in> set A \<or> rq \<in> set B" by simp
  with ab(2,3) have "rq = token_request p \<or>
      (\<exists>bytes. rq = upload_request (fst (snd (no_token p w))) w bytes)"
    by auto
  then show ?thesis
  proof
    assume "rq = token_request p"
    then show ?thesis by (simp add: token_request_def)
  next
    assume "\<exists>bytes. rq = upload_request (fst (snd (no_token p w))) w bytes"
    then obtain bytes where "rq = upload_request (fst (snd (no_token p w))) w bytes" by blast
    with u [of bytes] show ?thesis by (simp add: upload_request_def)
  qed
qed

lemma main_runs_execute:
  assumes "main_prepare zip_arg w = (Ret (p, zip_path), w1)"
  shows "main a zip_arg w = main_execute a p zip_path w1" "trace w1 = trace w"
    "net w1 = net w" "repr w1 = repr w" "read_bytes w1 = read_bytes w"
    "\<exists>cid secret rtoken eid. p = ChromeWebStorePublisher cid secret rtoken eid"
    "\<not> truthy (access_token p)"
proof -
  from main_prepare_cases [OF assms]
  have s: "same_files w w1"
    and c: "\<exists>cid secret rtoken eid. p = ChromeWebStorePublisher cid secret rtoken eid"
    by auto
  show "main a zip_arg w = main_execute a p zip_path w1" by (simp add: main_def assms)
  from s show "trace w1 = trace w" "net w1 = net w" "repr w1 = repr w" "read_bytes w1 = read_bytes w"
    by (simp_all add: same_files_def)
  from c show "\<exists>cid secret rtoken eid. p = ChromeWebStorePublisher cid secret rtoken eid" .
  from c show "\<not> truthy (access_token p)" by (auto simp: ChromeWebStorePublisher_def)
qed

lemma info_urls:
  assumes "rq \<in> set (issued w (snd (snd (get_extension_info p w))))"
  shows "(url rq = token_url \<or>
          url rq = base_url p @ ''/items/'' @ extension_id p @ ''?projection=DRAFT'') \<and>
         params rq = []"
proof -
  have u: "url (info_request (fst (snd (no_token p w))) w) =
      base_url p @ ''/items/'' @ extension_id p @ ''?projection=DRAFT''"
    using no_token_account [of p w] by (simp add: same_account_requests)
  obtain A B where ab: "issued w (snd (snd (get_extension_info p w))) = A @ B"
    "A = [] \<and> truthy (access_token p) \<or> A = [token_request p] \<and> \<not> truthy (access_token p)"
    "B = [] \<and> fst (no_token p w) \<noteq> Ret False \<or>
     B = [info_request (fst (snd (no_token p w))) w] \<and> fst (no_token p w) = Ret False"
    by (rule info_issued_shape)
  from assms ab(1) have "rq \<in> set A \<or> rq \<in> set B" by simp
  with ab(2,3) have "rq = token_request p \<or> rq = info_request (fst (snd (no_token p w))) w"
    by auto
  then show ?thesis
  proof
    assume "rq = token_request p"
    then show ?thesis by (simp add: token_request_def)
  next
    assume "rq = info_request (fst (snd (no_token p w))) w"
    with u show ?thesis by (simp add: info_request_def)
  qed
qed

lemma upload_and_publish_trace:
  "trace (snd (upload_and_publish p zip_path target w)) =
     trace (snd (snd (upload_extension p zip_path w))) @
     (if fst (upload_extension p zip_path w) = Ret True
      then [publish_request (fst (snd (upload_extension p zip_path w)))
              (snd (snd (upload_extension p zip_path w))) target]
      else [])"
proof (cases "fst (upload_extension p zip_path w) = Ret True")
  case True
  obtain p1 w2 where u: "upload_extension p zip_path w = (Ret True, p1, w2)"
    using True by (cases "upload_extension p zip_path w") auto
  from upload_success(1) [OF u] have g: "no_token p1 w2 = (Ret False, p1, w2)"
    by (rule no_token_held)
  show ?thesis
    by (simp add: upload_and_publish_eq u publish_trace g)
next
  case False
  then show ?thesis by (simp add: upload_and_publish_eq)
qed

lemma first_call_upload:
  "\<not> truthy (access_token p) \<Longrightarrow>
     \<exists>rest. trace (snd (snd (upload_extension p zip_path w))) = trace w @ token_request p # rest"
  by (simp add: upload_trace no_token_trace)

lemma first_call_publish:
  "\<not> truthy (access_token p) \<Longrightarrow>
     \<exists>rest. trace (snd (snd (publish_extension p target w))) = trace w @ token_request p # rest"
  by (simp add: publish_trace no_token_trace)

lemma first_call_info:
  "\<not> truthy (access_token p) \<Longrightarrow>
     \<exists>rest. trace (snd (snd (get_extension_info p w))) = trace w @ token_request p # rest"
  by (simp add: info_trace no_token_trace)

lemma first_call_execute:
  assumes "\<not> truthy (access_token p)"
  shows "\<exists>rest. trace (snd (main_execute a p zip_path w)) = trace w @ token_request p # rest"
proof (cases a)
  case Upload
  with first_call_upload [OF assms] show ?thesis by (simp add: main_execute_trace)
next
  case Info
  with first_call_info [OF assms] show ?thesis by (simp add: main_execute_trace)
next
  case Publish
  from first_call_upload [OF assms, of zip_path w] obtain rest
    where "trace (snd (snd (upload_extension p zip_path w))) = trace w @ token_request p # rest"
    by blast
  with Publish show ?thesis by (simp add: main_execute_trace upload_and_publish_trace)
next
  case Testers
  from first_call_upload [OF assms, of zip_path w] obtain rest
    where "trace (snd (snd (upload_extension p zip_path w))) = trace w @ token_request p # rest"
    by blast
  with Testers show ?thesis by (simp add: main_execute_trace upload_and_publish_trace)
qed

lemma main_no_calls:
  assumes "\<forall>v. fst (main_prepare zip_arg w) \<noteq> Ret v"
  shows "trace (snd (main a zip_arg w)) = trace w"
proof -
  obtain r w1 where e: "main_prepare zip_arg w = (r, w1)"
    by (cases "main_prepare zip_arg w") auto
  from main_prepare_cases [OF e] assms e have "r = Exit 1" "trace w1 = trace w"
    by (auto simp: same_files_def)
  with e show ?thesis by (simp add: main_def)
qed

lemma execute_issued:
  "issued w (snd (main_execute a p zip_path w)) =
     (case a of
        Info \<Rightarrow> issued w (snd (snd (get_extension_info p w)))
      | Upload \<Rightarrow> issued w (snd (snd (upload_extension p zip_path w)))
      | Publish \<Rightarrow>
          issued w (snd (snd (upload_extension p zip_path w))) @
          (if fst (upload_extension p zip_path w) = Ret True
           then [publish_request (fst (snd (upload_extension p zip_path w)))
                   (snd (snd (upload_extension p zip_path w))) ''default'']
           else [])
      | Testers \<Rightarrow>
          issued w (snd (snd (upload_extension p zip_path w))) @
          (if fst (upload_extension p zip_path w) = Ret True
           then [publish_request (fst (snd (upload_extension p zip_path w)))
                   (snd (snd (upload_extension p zip_path w))) ''testers'']
           else []))"
proof -
  have le: "length (trace w) \<le> length (trace (snd (snd (upload_extension p zip_path w))))"
    by (simp add: upload_trace no_token_trace)
  show ?thesis
    by (cases a)
       (simp_all add: issued_def main_execute_trace upload_and_publish_trace le)
qed

section \<open>The claims\<close>

subsection \<open>C1: what decides the result of an upload\<close>

text \<open>
  C1, as amended. Take any run of \<open>upload_extension\<close> that gets as far as the upload call
  (a token is held or the refresh succeeded, and the package could be read), and let \<open>r\<close>
  be the response to that call. The operation returns success if and only if the status
  of \<open>r\<close> is 200 and its body is a JSON object whose \<open>uploadState\<close> entry equals
  \<open>SUCCESS\<close>; it returns failure otherwise. The \<open>itemError\<close> entry of the body
  (\<open>Unknown error\<close> when the body has none) is what is printed last for status 200 and
  an object body with any other upload state, and only then: for a status other than 200
  the line printed last is the HTTP error with the status and the raw response text, and
  for status 200 and a body that is not a JSON object (or that \<^verbatim>\<open>json()\<close> cannot
  return) it is the error of the upload. No run of the operation that ends on a status
  other than 200 prints an \<open>itemError\<close> line.

  The claim as stated (failure "after printing the embedded itemError detail" also for a
  non-200 status) fails: lines 101 to 103 never read the body of such a response.
\<close>

theorem upload_response_decides:
  assumes guard: "no_token p w = (Ret False, p1, w1)"
      and zipfile: "read_bytes w zip_path = Some bytes"
      and answer: "net w (trace w1) (upload_request p1 w bytes) = Resp r"
  shows "fst (upload_extension p zip_path w) =
           Ret (status_code r = 200 \<and>
                (\<exists>result. json_body r = Parsed (JObj result) \<and>
                           map_of result ''uploadState'' = Some (JStr ''SUCCESS''))) \<and>
         (status_code r \<noteq> 200 \<longrightarrow>
            out (snd (snd (upload_extension p zip_path w))) =
              out w1 @ [Uploading (path_name zip_path), HttpError (status_code r) (resp_text r)]) \<and>
         (\<forall>result. status_code r = 200 \<and> json_body r = Parsed (JObj result) \<and>
                   map_of result ''uploadState'' \<noteq> Some (JStr ''SUCCESS'') \<longrightarrow>
            out (snd (snd (upload_extension p zip_path w))) =
              out w1 @ [Uploading (path_name zip_path),
                        UploadFailed (dict_get result ''itemError'' (JStr ''Unknown error''))]) \<and>
         (status_code r = 200 \<and> (\<forall>result. json_body r \<noteq> Parsed (JObj result)) \<longrightarrow>
            out (snd (snd (upload_extension p zip_path w))) =
              out w1 @ [Uploading (path_name zip_path), UploadError])"
proof -
  from no_token_frame [OF guard]
  have fr: "net w1 = net w" "repr w1 = repr w" "read_bytes w1 = read_bytes w" by simp_all
  have rq: "upload_request p1 w1 bytes = upload_request p1 w bytes"
    by (rule request_repr(2) [OF fr(2)])
  show ?thesis
    using answer zipfile
    by (simp add: upload_extension_def guard fr rq send_def Let_def
             split: option.splits body.splits json.splits)
qed

theorem upload_response_decides_witness:
  "fst (upload_extension demo_publisher demo_zip
         (demo_world (answers token_ok upload_rejected RequestException RequestException)))
     = Ret False \<and>
   out (snd (snd (upload_extension demo_publisher demo_zip
         (demo_world (answers token_ok upload_rejected RequestException RequestException)))))
     = [RefreshingToken, TokenRefreshed, Uploading ''eksi-arti-v1.2.3.zip'',
        UploadFailed (JStr ''bad zip'')]"
proof -
  let ?w = "demo_world (answers token_ok upload_rejected RequestException RequestException)"
  have h2: "read_bytes ?w demo_zip = Some ''PK''"
    by (simp add: demo)
  have h3: "net ?w (trace (?w\<lparr>trace := [token_request demo_publisher],
                              out := [RefreshingToken, TokenRefreshed]\<rparr>))
       (upload_request (demo_publisher\<lparr>access_token := JStr ''tok''\<rparr>) ?w ''PK'')
     = Resp \<lparr>status_code = 200, resp_text = ''{uploadState: FAILURE, itemError: bad zip}'',
         json_body = Parsed (JObj [(''uploadState'', JStr ''FAILURE''),
                                   (''itemError'', JStr ''bad zip'')])\<rparr>"
    by (simp add: demo)
  have n: "path_name demo_zip = ''eksi-arti-v1.2.3.zip''"
    by (simp add: demo)
  show ?thesis
    using upload_response_decides [OF demo_refresh h2 h3] by (simp add: dict_get_def n)
qed

theorem upload_http_error_counterexample:
  "net (demo_world (answers token_ok upload_bad_request RequestException RequestException))
       [token_request demo_publisher]
       (upload_request (demo_publisher\<lparr>access_token := JStr ''tok''\<rparr>)
          (demo_world (answers token_ok upload_bad_request RequestException RequestException)) ''PK'')
     = Resp \<lparr>status_code = 400, resp_text = ''{itemError: bad zip}'',
             json_body = Parsed (JObj [(''itemError'', JStr ''bad zip'')])\<rparr> \<and>
   fst (upload_extension demo_publisher demo_zip
         (demo_world (answers token_ok upload_bad_request RequestException RequestException)))
     = Ret False \<and>
   out (snd (snd (upload_extension demo_publisher demo_zip
         (demo_world (answers token_ok upload_bad_request RequestException RequestException)))))
     = [RefreshingToken, TokenRefreshed, Uploading ''eksi-arti-v1.2.3.zip'',
        HttpError 400 ''{itemError: bad zip}''] \<and>
   UploadFailed (JStr ''bad zip'') \<notin> set (out (snd (snd (upload_extension demo_publisher demo_zip
         (demo_world (answers token_ok upload_bad_request RequestException RequestException))))))"
  by (simp add: run demo)

subsection \<open>C2: what decides the result of a publish call\<close>

text \<open>
  C2, as amended. Take any run of \<open>publish_extension\<close> that gets as far as the publish
  call, and let \<open>r\<close> be the response to it, with status 200. The operation returns
  success if and only if the body of \<open>r\<close> is a JSON object whose \<open>status\<close> entry is a list
  that contains the string \<open>OK\<close>, or a string that contains \<open>OK\<close> as a substring, or an
  object with a key \<open>OK\<close>; it returns failure otherwise (also when the entry is absent).
  In particular, whenever the entry is a list, the result is success exactly when the list
  contains \<open>OK\<close>. The code tests \<^verbatim>\<open>'OK' in status\<close> on whatever the body holds, so
  the claim as stated (success only for a status list containing \<open>OK\<close>) fails for a
  status that is a string such as \<open>NOT_OK\<close>.
\<close>

theorem publish_response_decides:
  assumes guard: "no_token p w = (Ret False, p1, w1)"
      and answer: "net w (trace w1) (publish_request p1 w target) = Resp r"
      and ok: "status_code r = 200"
  shows "fst (publish_extension p target w) =
           Ret (\<exists>result. json_body r = Parsed (JObj result) \<and>
                  (case dict_get result ''status'' (JArr []) of
                     JArr xs \<Rightarrow> JStr ''OK'' \<in> set xs
                   | JStr s \<Rightarrow> str_contains s ''OK''
                   | JObj kvs \<Rightarrow> ''OK'' \<in> fst ` set kvs
                   | _ \<Rightarrow> False)) \<and>
         (\<forall>result xs. json_body r = Parsed (JObj result) \<and>
                      dict_get result ''status'' (JArr []) = JArr xs \<longrightarrow>
            fst (publish_extension p target w) = Ret (JStr ''OK'' \<in> set xs))"
proof -
  from no_token_frame [OF guard]
  have fr: "net w1 = net w" "repr w1 = repr w" by simp_all
  have rq: "publish_request p1 w1 target = publish_request p1 w target"
    by (rule request_repr(3) [OF fr(2)])
  show ?thesis
    using answer ok
    by (simp add: publish_extension_def guard fr rq send_def Let_def
             split: option.splits body.splits json.splits bool.splits)
qed

theorem publish_response_decides_witness:
  "fst (publish_extension demo_publisher ''testers''
         (demo_world (answers token_ok upload_ok publish_ok RequestException))) = Ret True"
proof -
  let ?w = "demo_world (answers token_ok upload_ok publish_ok RequestException)"
  have h2: "net ?w (trace (?w\<lparr>trace := [token_request demo_publisher],
                              out := [RefreshingToken, TokenRefreshed]\<rparr>))
       (publish_request (demo_publisher\<lparr>access_token := JStr ''tok''\<rparr>) ?w ''testers'')
     = Resp \<lparr>status_code = 200, resp_text = ''{status: [OK]}'',
         json_body = Parsed (JObj [(''status'', JArr [JStr ''OK''])])\<rparr>"
    by (simp add: demo)
  show ?thesis
    using publish_response_decides [OF demo_refresh h2] by (simp add: dict_get_def)
qed

theorem publish_string_status_counterexample:
  "net (demo_world (answers token_ok upload_ok publish_not_ok RequestException))
       [token_request demo_publisher]
       (publish_request (demo_publisher\<lparr>access_token := JStr ''tok''\<rparr>)
          (demo_world (answers token_ok upload_ok publish_not_ok RequestException)) ''default'')
     = Resp \<lparr>status_code = 200, resp_text = ''{status: NOT_OK}'',
             json_body = Parsed (JObj [(''status'', JStr ''NOT_OK'')])\<rparr> \<and>
   publish_extension demo_publisher ''default''
       (demo_world (answers token_ok upload_ok publish_not_ok RequestException))
     = (Ret True, demo_publisher\<lparr>access_token := JStr ''tok''\<rparr>,
        (demo_world (answers token_ok upload_ok publish_not_ok RequestException))
          \<lparr>trace := [token_request demo_publisher,
                      publish_request (demo_publisher\<lparr>access_token := JStr ''tok''\<rparr>)
                        (demo_world (answers token_ok upload_ok publish_not_ok RequestException)) ''default''],
            out := [RefreshingToken, TokenRefreshed, Publishing ''default'', PublishedOk]\<rparr>)"
  by (simp only: publish_extension_def demo_refresh) (simp add: demo)

subsection \<open>C3: a token response without an access token\<close>

lemma refresh_without_token:
  assumes "net w (trace w) (token_request p) = Resp r"
      and "json_body r = JSONDecodeError \<or>
           (\<exists>token_data. json_body r = Parsed (JObj token_data) \<and>
                          \<not> truthy (dict_get token_data ''access_token'' JNull))"
  shows "fst (refresh_access_token p w) = Ret False"
  using assms
  by (auto simp: refresh_access_token_def send_def Let_def)

lemma refresh_no_field:
  assumes "net w (trace w) (token_request p) = Resp r"
      and "\<forall>token_data. json_body r = Parsed (JObj token_data) \<longrightarrow>
             \<not> truthy (dict_get token_data ''access_token'' JNull)"
  shows "fst (refresh_access_token p w) \<noteq> Ret True"
  using assms
  by (auto simp: refresh_access_token_def send_def Let_def
           split: body.splits json.splits)

lemma no_token_stops:
  assumes "\<not> truthy (access_token p)" and "fst (refresh_access_token p w) \<noteq> Ret True"
  shows "fst (no_token p w) \<noteq> Ret False"
    and "fst (refresh_access_token p w) = Ret False \<Longrightarrow> fst (no_token p w) = Ret True"
  using assms
  by (cases "refresh_access_token p w"; cases "fst (refresh_access_token p w)";
      auto simp: no_token_def)+

lemma stopped_operations:
  assumes "fst (no_token p w) \<noteq> Ret False"
  shows "fst (upload_extension p zip_path w) \<noteq> Ret True"
    and "fst (publish_extension p target w) \<noteq> Ret True"
    and "\<forall>doc. fst (get_extension_info p w) = Ret doc \<longrightarrow> doc = JNull"
    and "fst (no_token p w) = Ret True \<Longrightarrow>
           fst (upload_extension p zip_path w) = Ret False \<and>
           fst (publish_extension p target w) = Ret False \<and>
           fst (get_extension_info p w) = Ret JNull"
proof -
  show "fst (upload_extension p zip_path w) \<noteq> Ret True"
    using assms by (cases rule: no_token_split [of p w]) (simp_all add: upload_extension_def)
  show "fst (publish_extension p target w) \<noteq> Ret True"
    using assms by (cases rule: no_token_split [of p w]) (simp_all add: publish_extension_def)
  show "\<forall>doc. fst (get_extension_info p w) = Ret doc \<longrightarrow> doc = JNull"
    using assms by (cases rule: no_token_split [of p w]) (simp_all add: get_extension_info_def)
  show "fst (upload_extension p zip_path w) = Ret False \<and>
        fst (publish_extension p target w) = Ret False \<and>
        fst (get_extension_info p w) = Ret JNull" if "fst (no_token p w) = Ret True"
    using that
    by (cases rule: no_token_split [of p w])
       (simp_all add: upload_extension_def publish_extension_def get_extension_info_def)
qed

text \<open>
  C3, as amended. Let \<open>r\<close> be the response of the token endpoint to an operation that
  starts without a token. (1) If the body of \<open>r\<close> is a JSON object without an
  \<open>access_token\<close> entry (\<open>dict_get\<close> then gives None; an entry that is null or empty
  counts the same), or does not parse as JSON (\<^verbatim>\<open>json()\<close> raises requests'
  JSONDecodeError), then \<open>refresh_access_token\<close> returns failure and each of the three
  operations returns its failure value (False, False, None). (2) Whatever the body of
  \<open>r\<close> is, as long as it is not a JSON object that holds an access token (so also for
  \<^verbatim>\<open>null\<close>, a list, a string or a number, which have no fields, and for a body on
  which \<^verbatim>\<open>json()\<close> raises), the refresh does not return success, no operation returns
  success, and the token request is the only HTTP call that the operation issues.

  The claim as stated fails for a body that lacks the field because it is not an object:
  under a status below 400, \<^verbatim>\<open>token_data.get\<close> raises AttributeError, the handler of
  the refresh catches RequestException only, and the exception leaves the refresh and the
  operation that called it; no failure value is returned.
\<close>

theorem missing_access_token_stops:
  assumes answer: "net w (trace w) (token_request p) = Resp r"
      and unheld: "\<not> truthy (access_token p)"
  shows "(json_body r = JSONDecodeError \<or>
          (\<exists>token_data. json_body r = Parsed (JObj token_data) \<and>
                         \<not> truthy (dict_get token_data ''access_token'' JNull)) \<longrightarrow>
            fst (refresh_access_token p w) = Ret False \<and>
            fst (upload_extension p zip_path w) = Ret False \<and>
            fst (publish_extension p target w) = Ret False \<and>
            fst (get_extension_info p w) = Ret JNull) \<and>
         ((\<forall>token_data. json_body r = Parsed (JObj token_data) \<longrightarrow>
                         \<not> truthy (dict_get token_data ''access_token'' JNull)) \<longrightarrow>
            fst (refresh_access_token p w) \<noteq> Ret True \<and>
            fst (upload_extension p zip_path w) \<noteq> Ret True \<and>
            fst (publish_extension p target w) \<noteq> Ret True \<and>
            (\<forall>doc. fst (get_extension_info p w) = Ret doc \<longrightarrow> doc = JNull) \<and>
            issued w (snd (snd (upload_extension p zip_path w))) = [token_request p] \<and>
            issued w (snd (snd (publish_extension p target w))) = [token_request p] \<and>
            issued w (snd (snd (get_extension_info p w))) = [token_request p])"
proof -
  have one: "fst (refresh_access_token p w) = Ret False \<and>
            fst (upload_extension p zip_path w) = Ret False \<and>
            fst (publish_extension p target w) = Ret False \<and>
            fst (get_extension_info p w) = Ret JNull"
    if lacks: "json_body r = JSONDecodeError \<or>
          (\<exists>token_data. json_body r = Parsed (JObj token_data) \<and>
                         \<not> truthy (dict_get token_data ''access_token'' JNull))"
  proof -
    from refresh_without_token [OF answer lacks]
    have f: "fst (refresh_access_token p w) = Ret False" .
    then have "fst (refresh_access_token p w) \<noteq> Ret True" by simp
    from no_token_stops(2) [OF unheld this f] have g: "fst (no_token p w) = Ret True" .
    then have "fst (no_token p w) \<noteq> Ret False" by simp
    from stopped_operations(4) [OF this g, of zip_path target] f show ?thesis by simp
  qed
  have two: "fst (refresh_access_token p w) \<noteq> Ret True \<and>
            fst (upload_extension p zip_path w) \<noteq> Ret True \<and>
            fst (publish_extension p target w) \<noteq> Ret True \<and>
            (\<forall>doc. fst (get_extension_info p w) = Ret doc \<longrightarrow> doc = JNull) \<and>
            issued w (snd (snd (upload_extension p zip_path w))) = [token_request p] \<and>
            issued w (snd (snd (publish_extension p target w))) = [token_request p] \<and>
            issued w (snd (snd (get_extension_info p w))) = [token_request p]"
    if nofield: "\<forall>token_data. json_body r = Parsed (JObj token_data) \<longrightarrow>
                         \<not> truthy (dict_get token_data ''access_token'' JNull)"
  proof -
    from refresh_no_field [OF answer nofield]
    have f: "fst (refresh_access_token p w) \<noteq> Ret True" .
    from no_token_stops(1) [OF unheld f] have g: "fst (no_token p w) \<noteq> Ret False" .
    note s = stopped_operations(1) [OF g, of zip_path] stopped_operations(2) [OF g, of target]
      stopped_operations(3) [OF g]
    have "issued w (snd (snd (upload_extension p zip_path w))) = [token_request p]"
      "issued w (snd (snd (publish_extension p target w))) = [token_request p]"
      "issued w (snd (snd (get_extension_info p w))) = [token_request p]"
      using unheld g by (simp_all add: upload_issued publish_issued info_issued)
    with f s show ?thesis by blast
  qed
  from one two show ?thesis by blast
qed

theorem missing_access_token_stops_witness:
  "fst (upload_extension demo_publisher demo_zip
          (demo_world (answers token_empty upload_ok publish_ok RequestException))) = Ret False \<and>
   issued (demo_world (answers token_empty upload_ok publish_ok RequestException))
     (snd (snd (upload_extension demo_publisher demo_zip
          (demo_world (answers token_empty upload_ok publish_ok RequestException)))))
     = [token_request demo_publisher] \<and>
   fst (get_extension_info demo_publisher
          (demo_world (answers token_empty upload_ok publish_ok RequestException))) = Ret JNull \<and>
   fst (publish_extension demo_publisher ''default''
          (demo_world (answers token_null upload_ok publish_ok RequestException))) \<noteq> Ret True \<and>
   issued (demo_world (answers token_null upload_ok publish_ok RequestException))
     (snd (snd (publish_extension demo_publisher ''default''
          (demo_world (answers token_null upload_ok publish_ok RequestException)))))
     = [token_request demo_publisher]"
proof -
  let ?w = "demo_world (answers token_empty upload_ok publish_ok RequestException)"
  let ?n = "demo_world (answers token_null upload_ok publish_ok RequestException)"
  have h1: "net ?w (trace ?w) (token_request demo_publisher)
     = Resp \<lparr>status_code = 200, resp_text = ''{error: invalid_grant}'',
             json_body = Parsed (JObj [(''error'', JStr ''invalid_grant'')])\<rparr>"
    by (simp add: demo)
  have h2: "net ?n (trace ?n) (token_request demo_publisher)
     = Resp \<lparr>status_code = 200, resp_text = ''null'', json_body = Parsed JNull\<rparr>"
    by (simp add: demo)
  have h4: "\<not> truthy (access_token demo_publisher)" by (simp add: demo)
  show ?thesis
    using missing_access_token_stops [OF h1 h4, of demo_zip "''default''"]
      missing_access_token_stops [OF h2 h4, of demo_zip "''default''"]
    by (simp add: dict_get_def)
qed

theorem missing_access_token_counterexample:
  "net (demo_world (answers token_null upload_ok publish_ok RequestException)) []
       (token_request demo_publisher)
     = Resp \<lparr>status_code = 200, resp_text = ''null'', json_body = Parsed JNull\<rparr> \<and>
   fst (refresh_access_token demo_publisher
         (demo_world (answers token_null upload_ok publish_ok RequestException)))
     = Raise AttributeError \<and>
   fst (upload_extension demo_publisher demo_zip
         (demo_world (answers token_null upload_ok publish_ok RequestException)))
     = Raise AttributeError \<and>
   fst (publish_extension demo_publisher ''default''
         (demo_world (answers token_null upload_ok publish_ok RequestException)))
     = Raise AttributeError \<and>
   fst (get_extension_info demo_publisher
         (demo_world (answers token_null upload_ok publish_ok RequestException)))
     = Raise AttributeError"
  by (simp add: run demo)

subsection \<open>C4: the exit code of a failed info action\<close>

lemma info_failure_returns:
  assumes "fst (get_extension_info p w) = Ret JNull"
  shows "fst (main_execute Info p zip_path w) = Ret ()"
proof -
  obtain r p1 w1 where u: "get_extension_info p w = (r, p1, w1)"
    by (cases "get_extension_info p w") auto
  with assms show ?thesis by (simp add: main_execute_def)
qed

text \<open>
  C4 does not hold of the code. The branches for \<^verbatim>\<open>upload\<close>, \<^verbatim>\<open>publish\<close> and
  \<^verbatim>\<open>testers\<close> call \<^verbatim>\<open>sys.exit(1)\<close> when the operation fails; the branch for
  \<^verbatim>\<open>info\<close> has no \<^verbatim>\<open>else\<close>. In the example world whose token endpoint cannot be
  reached, \<open>get_extension_info\<close> returns None, and \<open>main\<close> returns normally: the exit
  code is 0, and nothing is printed after the token error. Lemma \<open>info_failure_returns\<close>
  says the same of every world.
\<close>

theorem info_failure_exits_zero:
  "fst (get_extension_info demo_publisher (demo_world token_down)) = Ret JNull \<and>
   fst (main Info None (demo_world token_down)) = Ret () \<and>
   exit_code (fst (main Info None (demo_world token_down))) = 0 \<and>
   out (snd (main Info None (demo_world token_down))) =
     [ExtensionIdLine ''ext'', PackageLine ''eksi-arti-v1.2.3.zip'', VersionLine (JStr ''1.2.3''),
      BlankLine, RefreshingToken, TokenRefreshError]"
  by (simp add: run demo)

subsection \<open>C5: missing credentials\<close>

lemma envfile_loaded:
  "environ (snd (load_env_file envfile_world)) =
     [''CWS_CLIENT_ID'' \<mapsto> ''id'', ''CWS_CLIENT_SECRET'' \<mapsto> ''secret'',
      ''CWS_REFRESH_TOKEN'' \<mapsto> ''rtoken'', ''CWS_EXTENSION_ID'' \<mapsto> []]"
  by (simp add: run demo)

text \<open>
  C5. Whenever \<open>get_env_vars\<close> returns, the four values it returns are the values that
  the four required variables have once the .env.cws file has been loaded, and none of
  them is empty. And if, once the file has been loaded, one of the four required
  variables is unset or empty, \<open>main\<close> (for any action and any \<^verbatim>\<open>--zip\<close> argument)
  ends with \<^verbatim>\<open>sys.exit(1)\<close> and has issued no HTTP call. This holds whatever
  \<^verbatim>\<open>str.strip\<close> removes. In the example the file gives \<open>CWS_EXTENSION_ID\<close> a
  no-break space as its value, which \<^verbatim>\<open>str.strip\<close> removes: the variable is empty
  and the run ends with code 1.
\<close>

theorem credentials_required:
  "(\<forall>cid secret rtoken eid w'.
      get_env_vars w = (Ret (cid, secret, rtoken, eid), w') \<longrightarrow>
        cid \<noteq> [] \<and> secret \<noteq> [] \<and> rtoken \<noteq> [] \<and> eid \<noteq> [] \<and>
        environ (snd (load_env_file w)) ''CWS_CLIENT_ID'' = Some cid \<and>
        environ (snd (load_env_file w)) ''CWS_CLIENT_SECRET'' = Some secret \<and>
        environ (snd (load_env_file w)) ''CWS_REFRESH_TOKEN'' = Some rtoken \<and>
        environ (snd (load_env_file w)) ''CWS_EXTENSION_ID'' = Some eid) \<and>
   ((\<exists>var \<in> set required_vars.
       environ (snd (load_env_file w)) var = None \<or> environ (snd (load_env_file w)) var = Some [])
    \<longrightarrow> fst (main a zip_arg w) = Exit 1 \<and> trace (snd (main a zip_arg w)) = trace w)"
proof -
  have "cid \<noteq> [] \<and> secret \<noteq> [] \<and> rtoken \<noteq> [] \<and> eid \<noteq> [] \<and>
        environ (snd (load_env_file w)) ''CWS_CLIENT_ID'' = Some cid \<and>
        environ (snd (load_env_file w)) ''CWS_CLIENT_SECRET'' = Some secret \<and>
        environ (snd (load_env_file w)) ''CWS_REFRESH_TOKEN'' = Some rtoken \<and>
        environ (snd (load_env_file w)) ''CWS_EXTENSION_ID'' = Some eid"
    if "get_env_vars w = (Ret (cid, secret, rtoken, eid), w')" for cid secret rtoken eid w'
    using get_env_vars_returns [OF that] by blast
  moreover have "fst (main a zip_arg w) = Exit 1 \<and> trace (snd (main a zip_arg w)) = trace w"
    if m: "\<exists>var \<in> set required_vars.
       environ (snd (load_env_file w)) var = None \<or> environ (snd (load_env_file w)) var = Some []"
  proof -
    obtain r1 w1 where e1: "get_env_vars w = (r1, w1)" by (cases "get_env_vars w") auto
    with get_env_vars_missing [OF m] have r1: "r1 = Exit 1" by simp
    from get_env_vars_same [of w] e1 have "trace w1 = trace w" by (simp add: same_files_def)
    with e1 r1 show ?thesis by (simp add: main_def main_prepare_def)
  qed
  ultimately show ?thesis by blast
qed

theorem credentials_required_witness:
  "get_env_vars (demo_world offline) = (Ret (''id'', ''secret'', ''rtoken'', ''ext''), demo_world offline) \<and>
   environ (snd (load_env_file envfile_world)) ''CWS_EXTENSION_ID'' = Some [] \<and>
   fst (main Publish None envfile_world) = Exit 1 \<and>
   trace (snd (main Publish None envfile_world)) = []"
proof -
  have h1: "get_env_vars (demo_world offline)
      = (Ret (''id'', ''secret'', ''rtoken'', ''ext''), demo_world offline)"
    by (simp add: run demo)
  have h2: "environ (snd (load_env_file envfile_world)) ''CWS_EXTENSION_ID'' = Some []"
    by (simp add: envfile_loaded)
  then have h3: "\<exists>var \<in> set required_vars.
       environ (snd (load_env_file envfile_world)) var = None \<or>
       environ (snd (load_env_file envfile_world)) var = Some []"
    by (simp add: required_vars_def)
  have t: "trace envfile_world = []" by (simp add: demo)
  show ?thesis
    using credentials_required [of "demo_world offline" Publish None]
      credentials_required [of envfile_world Publish None] h1 h2 h3 t
    by simp
qed

subsection \<open>C6: the trusted-tester parameter\<close>

text \<open>
  C6. In a run of \<open>main\<close> that gets as far as building the publisher \<open>p\<close>: every HTTP
  call issued carries no query parameter at all, except the call to the publish URL in a
  run of the \<^verbatim>\<open>testers\<close> action, whose query parameters are exactly the one pair
  \<open>publishTarget = trustedTesters\<close>. So the call to the publish URL of the \<^verbatim>\<open>publish\<close>
  action carries no such parameter. At most one call goes to the publish URL in a run, and
  for \<^verbatim>\<open>publish\<close> and \<^verbatim>\<open>testers\<close> there is one whenever the upload returned True.
\<close>

theorem testers_parameter:
  assumes prep: "main_prepare zip_arg w = (Ret (p, zip_path), w1)"
  shows "(\<forall>rq \<in> set (issued w (snd (main a zip_arg w))).
            params rq = (if a = Testers \<and> url rq = publish_url p
                         then [(''publishTarget'', ''trustedTesters'')] else [])) \<and>
         length (filter (\<lambda>rq. url rq = publish_url p) (issued w (snd (main a zip_arg w)))) \<le> 1 \<and>
         ((a = Publish \<or> a = Testers) \<and> fst (upload_extension p zip_path w1) = Ret True \<longrightarrow>
            (\<exists>rq \<in> set (issued w (snd (main a zip_arg w))). url rq = publish_url p))"
proof -
  note m = main_runs_execute [OF prep]
  from m(6) obtain cid secret rtoken eid
    where p: "p = ChromeWebStorePublisher cid secret rtoken eid" by blast
  have same: "same_account (ChromeWebStorePublisher cid secret rtoken eid) p" by (simp add: p)
  note urls = publisher_urls [OF same]
  let ?U = "upload_extension p zip_path w1"
  let ?up = "issued w1 (snd (snd ?U))"
  let ?pub = "\<lambda>t. publish_request (fst (snd ?U)) (snd (snd ?U)) t"
  have iss: "issued w (snd (main b zip_arg w)) = issued w1 (snd (main_execute b p zip_path w1))"
    for b by (simp add: issued_def m(1) m(2))
  have up: "url rq \<noteq> publish_url p \<and> params rq = []" if "rq \<in> set ?up" for rq
    using upload_urls [OF that] urls by auto
  have info: "url rq \<noteq> publish_url p \<and> params rq = []"
    if "rq \<in> set (issued w1 (snd (snd (get_extension_info p w1))))" for rq
    using info_urls [OF that] urls by auto
  have pub: "url (?pub t) = publish_url p" for t
  proof -
    have "same_account p (fst (snd ?U))"
      using upload_frame [of p zip_path w1] no_token_account [of p w1] by simp
    then show ?thesis by (simp add: same_account_requests)
  qed
  have par: "params (?pub ''testers'') = [(''publishTarget'', ''trustedTesters'')]"
    "params (?pub ''default'') = []"
    by (simp_all add: publish_request_def)
  have none: "filter (\<lambda>rq. url rq = publish_url p) ?up = []"
    using up by (simp add: filter_empty_conv)
  have none_info: "filter (\<lambda>rq. url rq = publish_url p)
      (issued w1 (snd (snd (get_extension_info p w1)))) = []"
    using info by (simp add: filter_empty_conv)
  show ?thesis
  proof (cases a)
    case Upload
    with up none show ?thesis by (simp add: iss execute_issued)
  next
    case Info
    with info none_info show ?thesis by (simp add: iss execute_issued)
  next
    case Publish
    with up none pub par show ?thesis by (auto simp: iss execute_issued)
  next
    case Testers
    with up none pub par show ?thesis by (auto simp: iss execute_issued)
  qed
qed

theorem testers_parameter_witness:
  "map params (issued (demo_world (answers token_ok upload_ok publish_ok RequestException))
      (snd (main Testers None (demo_world (answers token_ok upload_ok publish_ok RequestException)))))
     = [[], [], [(''publishTarget'', ''trustedTesters'')]] \<and>
   map params (issued (demo_world (answers token_ok upload_ok publish_ok RequestException))
      (snd (main Publish None (demo_world (answers token_ok upload_ok publish_ok RequestException)))))
     = [[], [], []] \<and>
   (\<exists>rq \<in> set (issued (demo_world (answers token_ok upload_ok publish_ok RequestException))
      (snd (main Testers None (demo_world (answers token_ok upload_ok publish_ok RequestException))))).
      url rq = publish_url demo_publisher \<and> params rq = [(''publishTarget'', ''trustedTesters'')])"
proof -
  let ?w = "demo_world (answers token_ok upload_ok publish_ok RequestException)"
  have prep: "main_prepare None ?w = (Ret (demo_publisher, demo_zip), snd (main_prepare None ?w))"
    by (simp add: prod_eq_iff run demo)
  have up: "fst (upload_extension demo_publisher demo_zip (snd (main_prepare None ?w))) = Ret True"
    by (simp add: run demo)
  have t: "map params (issued ?w (snd (main Testers None ?w)))
      = [[], [], [(''publishTarget'', ''trustedTesters'')]]"
    by (simp add: issued_def run demo)
  have d: "map params (issued ?w (snd (main Publish None ?w))) = [[], [], []]"
    by (simp add: issued_def run demo)
  from testers_parameter [OF prep, of Testers] up
  obtain rq where "rq \<in> set (issued ?w (snd (main Testers None ?w)))"
    "url rq = publish_url demo_publisher"
    "params rq = (if Testers = Testers \<and> url rq = publish_url demo_publisher
                  then [(''publishTarget'', ''trustedTesters'')] else [])"
    by blast
  then have "\<exists>rq \<in> set (issued ?w (snd (main Testers None ?w))).
      url rq = publish_url demo_publisher \<and> params rq = [(''publishTarget'', ''trustedTesters'')]"
    by auto
  with t d show ?thesis by blast
qed

subsection \<open>C7: a refresh comes before any authorized call\<close>

text \<open>
  C7. For each of the three operations: if no access token is held when it starts, the
  first HTTP call it issues is the token request (so the refresh is attempted before the
  authorized call, which can only come after it). And in every run of \<open>main\<close>, every
  call issued with an \<open>Authorization\<close> header comes after a call that is a POST to the
  token endpoint and carries no such header.
\<close>

theorem refresh_before_authorized:
  "(\<not> truthy (access_token p) \<longrightarrow>
      (\<exists>rest. issued w (snd (snd (upload_extension p zip_path w))) = token_request p # rest) \<and>
      (\<exists>rest. issued w (snd (snd (publish_extension p target w))) = token_request p # rest) \<and>
      (\<exists>rest. issued w (snd (snd (get_extension_info p w))) = token_request p # rest)) \<and>
   (\<forall>pre rq post.
      issued w (snd (main a zip_arg w)) = pre @ rq # post \<and> authorized rq \<longrightarrow>
        (\<exists>rq0 \<in> set pre. meth rq0 = POST \<and> url rq0 = token_url \<and> \<not> authorized rq0))"
proof -
  have ops: "(\<exists>rest. issued w (snd (snd (upload_extension p zip_path w))) = token_request p # rest) \<and>
      (\<exists>rest. issued w (snd (snd (publish_extension p target w))) = token_request p # rest) \<and>
      (\<exists>rest. issued w (snd (snd (get_extension_info p w))) = token_request p # rest)"
    if "\<not> truthy (access_token p)"
    using first_call_upload [OF that, of zip_path w] first_call_publish [OF that, of target w]
      first_call_info [OF that, of w]
    by (auto simp: issued_def)
  have proc: "\<exists>rq0 \<in> set pre. meth rq0 = POST \<and> url rq0 = token_url \<and> \<not> authorized rq0"
    if i: "issued w (snd (main a zip_arg w)) = pre @ rq # post" and au: "authorized rq"
    for pre rq post
  proof (cases "\<exists>v. fst (main_prepare zip_arg w) = Ret v")
    case False
    then have "trace (snd (main a zip_arg w)) = trace w" by (simp add: main_no_calls)
    with i show ?thesis by (simp add: issued_def)
  next
    case True
    then obtain p0 zp w1 where prep: "main_prepare zip_arg w = (Ret (p0, zp), w1)"
      by (cases "main_prepare zip_arg w") auto
    note m = main_runs_execute [OF prep]
    from first_call_execute [OF m(7), of a zp w1] obtain rest
      where "trace (snd (main a zip_arg w)) = trace w @ token_request p0 # rest"
      by (auto simp: m(1) m(2))
    then have "issued w (snd (main a zip_arg w)) = token_request p0 # rest"
      by (simp add: issued_def)
    with i have e: "pre @ rq # post = token_request p0 # rest" by simp
    have na: "\<not> authorized (token_request p0)"
      by (simp add: authorized_def token_request_def)
    show ?thesis
    proof (cases pre)
      case Nil
      with e au na show ?thesis by simp
    next
      case (Cons x xs)
      with e have "x = token_request p0" by simp
      with Cons na show ?thesis by (simp add: token_request_def)
    qed
  qed
  from ops proc show ?thesis by blast
qed

theorem refresh_before_authorized_witness:
  "\<not> truthy (access_token demo_publisher) \<and>
   hd (issued (demo_world (answers token_ok upload_ok publish_ok RequestException))
         (snd (snd (get_extension_info demo_publisher
            (demo_world (answers token_ok upload_ok publish_ok RequestException))))))
     = token_request demo_publisher \<and>
   issued (demo_world (answers token_ok upload_ok publish_ok RequestException))
       (snd (main Upload None (demo_world (answers token_ok upload_ok publish_ok RequestException))))
     = [token_request demo_publisher] @
       upload_request (demo_publisher\<lparr>access_token := JStr ''tok''\<rparr>)
         (demo_world (answers token_ok upload_ok publish_ok RequestException)) ''PK'' # [] \<and>
   authorized (upload_request (demo_publisher\<lparr>access_token := JStr ''tok''\<rparr>)
         (demo_world (answers token_ok upload_ok publish_ok RequestException)) ''PK'') \<and>
   (\<exists>rq0 \<in> set [token_request demo_publisher].
      meth rq0 = POST \<and> url rq0 = token_url \<and> \<not> authorized rq0)"
proof -
  let ?w = "demo_world (answers token_ok upload_ok publish_ok RequestException)"
  let ?up = "upload_request (demo_publisher\<lparr>access_token := JStr ''tok''\<rparr>) ?w ''PK''"
  have h: "\<not> truthy (access_token demo_publisher)" by (simp add: demo)
  have i: "issued ?w (snd (main Upload None ?w)) = [token_request demo_publisher] @ ?up # []"
    by (simp add: issued_def run demo)
  have au: "authorized ?up" by (simp add: authorized_def demo)
  from refresh_before_authorized [of demo_publisher ?w demo_zip "''default''" Upload None] h
  obtain rest where "issued ?w (snd (snd (get_extension_info demo_publisher ?w)))
      = token_request demo_publisher # rest"
    by blast
  then have hd: "hd (issued ?w (snd (snd (get_extension_info demo_publisher ?w))))
      = token_request demo_publisher" by simp
  from refresh_before_authorized [of demo_publisher ?w demo_zip "''default''" Upload None] i au
  have "\<exists>rq0 \<in> set [token_request demo_publisher].
      meth rq0 = POST \<and> url rq0 = token_url \<and> \<not> authorized rq0"
    by blast
  with h hd i au show ?thesis by blast
qed

subsection \<open>C8: failures are values\<close>

lemma refresh_returns:
  assumes "\<forall>e. net w (trace w) (token_request p) \<noteq> OtherException e"
      and "\<forall>r. net w (trace w) (token_request p) = Resp r \<and>
               \<not> (400 \<le> status_code r \<and> status_code r < 600) \<longrightarrow>
               json_body r = JSONDecodeError \<or> (\<exists>d. json_body r = Parsed (JObj d))"
  shows "fst (refresh_access_token p w) = Ret True \<or> fst (refresh_access_token p w) = Ret False"
proof (cases "net w (trace w) (token_request p)")
  case RequestException
  then show ?thesis by (simp add: refresh_access_token_def send_def Let_def)
next
  case (OtherException e)
  with assms(1) show ?thesis by simp
next
  case (Resp r)
  show ?thesis
  proof (cases "400 \<le> status_code r \<and> status_code r < 600")
    case True
    with Resp show ?thesis by (simp add: refresh_access_token_def send_def Let_def)
  next
    case False
    with assms(2) Resp
    have "json_body r = JSONDecodeError \<or> (\<exists>d. json_body r = Parsed (JObj d))" by blast
    then show ?thesis
    proof
      assume "json_body r = JSONDecodeError"
      with Resp False show ?thesis by (simp add: refresh_access_token_def send_def Let_def)
    next
      assume "\<exists>d. json_body r = Parsed (JObj d)"
      then obtain d where "json_body r = Parsed (JObj d)" by blast
      with Resp False show ?thesis
        by (simp add: refresh_access_token_def send_def Let_def)
    qed
  qed
qed

lemma no_token_returns:
  assumes "truthy (access_token p) \<or>
           (\<forall>e. net w (trace w) (token_request p) \<noteq> OtherException e) \<and>
           (\<forall>r. net w (trace w) (token_request p) = Resp r \<and>
                \<not> (400 \<le> status_code r \<and> status_code r < 600) \<longrightarrow>
                json_body r = JSONDecodeError \<or> (\<exists>d. json_body r = Parsed (JObj d)))"
  shows "\<forall>e. fst (no_token p w) \<noteq> Raise e"
proof (cases "truthy (access_token p)")
  case True
  then show ?thesis by (simp add: no_token_def)
next
  case False
  with assms refresh_returns [of w p]
  have "fst (refresh_access_token p w) = Ret True \<or> fst (refresh_access_token p w) = Ret False"
    by blast
  with False show ?thesis
    by (cases "refresh_access_token p w") (auto simp: no_token_def)
qed

lemma refresh_fails:
  assumes "net w (trace w) (token_request p) = RequestException \<or>
           (\<exists>r. net w (trace w) (token_request p) = Resp r \<and>
                400 \<le> status_code r \<and> status_code r < 600)"
  shows "refresh_access_token p w =
           (Ret False, p, say TokenRefreshError (snd (send (token_request p) (say RefreshingToken w))))"
  using assms by (auto simp: refresh_access_token_def send_def Let_def)

lemma no_token_fails:
  assumes "\<not> truthy (access_token p)"
      and "net w (trace w) (token_request p) = RequestException \<or>
           (\<exists>r. net w (trace w) (token_request p) = Resp r \<and>
                400 \<le> status_code r \<and> status_code r < 600)"
  shows "no_token p w =
           (Ret True, p, say TokenRefreshError (snd (send (token_request p) (say RefreshingToken w))))"
  using assms(1) by (simp add: no_token_def refresh_fails [OF assms(2)])

lemma upload_call_fails:
  assumes guard: "no_token p w = (Ret False, p1, w1)"
      and zipfile: "read_bytes w zip_path = Some bytes"
  shows "(net w (trace w1) (upload_request p1 w bytes) = RequestException \<or>
          (\<exists>e. net w (trace w1) (upload_request p1 w bytes) = OtherException e) \<longrightarrow>
            fst (upload_extension p zip_path w) = Ret False \<and>
            last (out (snd (snd (upload_extension p zip_path w)))) = UploadError) \<and>
         (\<forall>r. net w (trace w1) (upload_request p1 w bytes) = Resp r \<and> status_code r \<noteq> 200 \<longrightarrow>
            fst (upload_extension p zip_path w) = Ret False \<and>
            last (out (snd (snd (upload_extension p zip_path w)))) =
              HttpError (status_code r) (resp_text r))"
proof -
  from no_token_frame [OF guard]
  have fr: "net w1 = net w" "repr w1 = repr w" "read_bytes w1 = read_bytes w" by simp_all
  note rq = request_repr(2) [OF fr(2)]
  from zipfile show ?thesis
    by (auto simp: upload_extension_def guard fr rq send_def Let_def)
qed

lemma publish_call_fails:
  assumes guard: "no_token p w = (Ret False, p1, w1)"
  shows "(net w (trace w1) (publish_request p1 w target) = RequestException \<or>
          (\<exists>e. net w (trace w1) (publish_request p1 w target) = OtherException e) \<longrightarrow>
            fst (publish_extension p target w) = Ret False \<and>
            last (out (snd (snd (publish_extension p target w)))) = PublishError) \<and>
         (\<forall>r. net w (trace w1) (publish_request p1 w target) = Resp r \<and> status_code r \<noteq> 200 \<longrightarrow>
            fst (publish_extension p target w) = Ret False \<and>
            last (out (snd (snd (publish_extension p target w)))) =
              HttpError (status_code r) (resp_text r))"
proof -
  from no_token_frame [OF guard]
  have fr: "net w1 = net w" "repr w1 = repr w" by simp_all
  note rq = request_repr(3) [OF fr(2)]
  show ?thesis
    by (auto simp: publish_extension_def guard fr rq send_def Let_def)
qed

lemma info_call_fails:
  assumes guard: "no_token p w = (Ret False, p1, w1)"
  shows "(net w (trace w1) (info_request p1 w) = RequestException \<or>
          (\<exists>e. net w (trace w1) (info_request p1 w) = OtherException e) \<longrightarrow>
            fst (get_extension_info p w) = Ret JNull \<and>
            last (out (snd (snd (get_extension_info p w)))) = InfoError) \<and>
         (\<forall>r. net w (trace w1) (info_request p1 w) = Resp r \<and> status_code r \<noteq> 200 \<longrightarrow>
            fst (get_extension_info p w) = Ret JNull \<and>
            last (out (snd (snd (get_extension_info p w)))) =
              HttpError (status_code r) (resp_text r))"
proof -
  from no_token_frame [OF guard]
  have fr: "net w1 = net w" "repr w1 = repr w" by simp_all
  note rq = request_repr(4) [OF fr(2)]
  show ?thesis
    by (auto simp: get_extension_info_def guard fr rq send_def Let_def)
qed

lemma authorized_requests:
  "\<not> authorized (token_request p)" "authorized (upload_request q w b)"
  "authorized (publish_request q w t)" "authorized (info_request q w)"
  by (simp_all add: authorized_def token_request_def upload_request_def publish_request_def
        info_request_def get_headers_def)

lemma upload_no_retry:
  "\<exists>A B. issued w (snd (snd (upload_extension p zip_path w))) = A @ B \<and>
         (A = [] \<or> A = [token_request p]) \<and>
         (B = [] \<or> (\<exists>rq. B = [rq] \<and> authorized rq \<and> url rq = upload_url p))"
proof -
  obtain A B where ab: "issued w (snd (snd (upload_extension p zip_path w))) = A @ B"
    "A = [] \<and> truthy (access_token p) \<or> A = [token_request p] \<and> \<not> truthy (access_token p)"
    "B = [] \<or> (\<exists>bytes. B = [upload_request (fst (snd (no_token p w))) w bytes] \<and>
        fst (no_token p w) = Ret False \<and> read_bytes w zip_path = Some bytes)"
    by (rule upload_issued_shape)
  have u: "url (upload_request (fst (snd (no_token p w))) w b) = upload_url p" for b
    using no_token_account [of p w] by (simp add: same_account_requests)
  from ab(2) have a: "A = [] \<or> A = [token_request p]" by blast
  from ab(3) u authorized_requests(2)
  have b: "B = [] \<or> (\<exists>rq. B = [rq] \<and> authorized rq \<and> url rq = upload_url p)" by blast
  from ab(1) a b show ?thesis by blast
qed

lemma publish_no_retry:
  "\<exists>A B. issued w (snd (snd (publish_extension p target w))) = A @ B \<and>
         (A = [] \<or> A = [token_request p]) \<and>
         (B = [] \<or> (\<exists>rq. B = [rq] \<and> authorized rq \<and> url rq = publish_url p))"
proof -
  obtain A B where ab: "issued w (snd (snd (publish_extension p target w))) = A @ B"
    "A = [] \<and> truthy (access_token p) \<or> A = [token_request p] \<and> \<not> truthy (access_token p)"
    "B = [] \<and> fst (no_token p w) \<noteq> Ret False \<or>
     B = [publish_request (fst (snd (no_token p w))) w target] \<and> fst (no_token p w) = Ret False"
    by (rule publish_issued_shape)
  have u: "url (publish_request (fst (snd (no_token p w))) w target) = publish_url p"
    using no_token_account [of p w] by (simp add: same_account_requests)
  from ab(2) have a: "A = [] \<or> A = [token_request p]" by blast
  from ab(3) u authorized_requests(3)
  have b: "B = [] \<or> (\<exists>rq. B = [rq] \<and> authorized rq \<and> url rq = publish_url p)" by blast
  from ab(1) a b show ?thesis by blast
qed

lemma info_no_retry:
  "\<exists>A B. issued w (snd (snd (get_extension_info p w))) = A @ B \<and>
         (A = [] \<or> A = [token_request p]) \<and>
         (B = [] \<or> (\<exists>rq. B = [rq] \<and> authorized rq \<and>
              url rq = base_url p @ ''/items/'' @ extension_id p @ ''?projection=DRAFT''))"
proof -
  obtain A B where ab: "issued w (snd (snd (get_extension_info p w))) = A @ B"
    "A = [] \<and> truthy (access_token p) \<or> A = [token_request p] \<and> \<not> truthy (access_token p)"
    "B = [] \<and> fst (no_token p w) \<noteq> Ret False \<or>
     B = [info_request (fst (snd (no_token p w))) w] \<and> fst (no_token p w) = Ret False"
    by (rule info_issued_shape)
  have u: "url (info_request (fst (snd (no_token p w))) w) =
      base_url p @ ''/items/'' @ extension_id p @ ''?projection=DRAFT''"
    using no_token_account [of p w] by (simp add: same_account_requests)
  from ab(2) have a: "A = [] \<or> A = [token_request p]" by blast
  from ab(3) u authorized_requests(4)
  have b: "B = [] \<or> (\<exists>rq. B = [rq] \<and> authorized rq \<and>
      url rq = base_url p @ ''/items/'' @ extension_id p @ ''?projection=DRAFT'')" by blast
  from ab(1) a b show ?thesis by blast
qed

text \<open>
  C8, as amended. (1) If a token is held, or the token request neither raises an
  exception other than a RequestException nor is answered, under a status outside 400 to
  599, with a body that parses to a JSON value that is not an object or on which
  \<^verbatim>\<open>json()\<close> raises an exception other than requests' JSONDecodeError, then
  \<open>upload_extension\<close> and \<open>publish_extension\<close> return a boolean and
  \<open>get_extension_info\<close> returns a document or None: nothing is raised. (2) A
  RequestException of the token request, or a status from 400 to 599 for it, makes each
  operation return its failure value with the token error printed last. (3) Any exception
  of the authorized call makes the operation return its failure value with its error line
  printed last, and a status other than 200 makes it return the failure value with the
  HTTP error line (status and response text) printed last. (4) The HTTP calls of an
  operation are at most one token request, which carries no \<open>Authorization\<close> header,
  followed by at most one authorized request, to the URL of the operation: nothing is
  sent twice.

  The claim as stated fails in two places. By design, the token refresh uses
  \<^verbatim>\<open>raise_for_status\<close>, so a token response with a status such as 201 is not a failure;
  and its handler catches \<^verbatim>\<open>RequestException\<close> only, so that a token response
  whose JSON body is an array, or whose body is nested too deep for \<^verbatim>\<open>json()\<close>,
  makes all three operations raise (AttributeError, RecursionError).
\<close>

theorem failures_are_values:
  "((truthy (access_token p) \<or>
     (\<forall>e. net w (trace w) (token_request p) \<noteq> OtherException e) \<and>
     (\<forall>r. net w (trace w) (token_request p) = Resp r \<and>
          \<not> (400 \<le> status_code r \<and> status_code r < 600) \<longrightarrow>
          json_body r = JSONDecodeError \<or> (\<exists>d. json_body r = Parsed (JObj d)))) \<longrightarrow>
      (fst (upload_extension p zip_path w) = Ret True \<or>
       fst (upload_extension p zip_path w) = Ret False) \<and>
      (fst (publish_extension p target w) = Ret True \<or>
       fst (publish_extension p target w) = Ret False) \<and>
      (\<exists>doc. fst (get_extension_info p w) = Ret doc)) \<and>
   (\<not> truthy (access_token p) \<and>
    (net w (trace w) (token_request p) = RequestException \<or>
     (\<exists>r. net w (trace w) (token_request p) = Resp r \<and>
          400 \<le> status_code r \<and> status_code r < 600)) \<longrightarrow>
      fst (upload_extension p zip_path w) = Ret False \<and>
      last (out (snd (snd (upload_extension p zip_path w)))) = TokenRefreshError \<and>
      fst (publish_extension p target w) = Ret False \<and>
      last (out (snd (snd (publish_extension p target w)))) = TokenRefreshError \<and>
      fst (get_extension_info p w) = Ret JNull \<and>
      last (out (snd (snd (get_extension_info p w)))) = TokenRefreshError) \<and>
   (\<forall>p1 w1 bytes.
      no_token p w = (Ret False, p1, w1) \<and> read_bytes w zip_path = Some bytes \<longrightarrow>
        (net w (trace w1) (upload_request p1 w bytes) = RequestException \<or>
         (\<exists>e. net w (trace w1) (upload_request p1 w bytes) = OtherException e) \<longrightarrow>
           fst (upload_extension p zip_path w) = Ret False \<and>
           last (out (snd (snd (upload_extension p zip_path w)))) = UploadError) \<and>
        (\<forall>r. net w (trace w1) (upload_request p1 w bytes) = Resp r \<and> status_code r \<noteq> 200 \<longrightarrow>
           fst (upload_extension p zip_path w) = Ret False \<and>
           last (out (snd (snd (upload_extension p zip_path w)))) =
             HttpError (status_code r) (resp_text r))) \<and>
   (\<forall>p1 w1.
      no_token p w = (Ret False, p1, w1) \<longrightarrow>
        (net w (trace w1) (publish_request p1 w target) = RequestException \<or>
         (\<exists>e. net w (trace w1) (publish_request p1 w target) = OtherException e) \<longrightarrow>
           fst (publish_extension p target w) = Ret False \<and>
           last (out (snd (snd (publish_extension p target w)))) = PublishError) \<and>
        (\<forall>r. net w (trace w1) (publish_request p1 w target) = Resp r \<and> status_code r \<noteq> 200 \<longrightarrow>
           fst (publish_extension p target w) = Ret False \<and>
           last (out (snd (snd (publish_extension p target w)))) =
             HttpError (status_code r) (resp_text r))) \<and>
   (\<forall>p1 w1.
      no_token p w = (Ret False, p1, w1) \<longrightarrow>
        (net w (trace w1) (info_request p1 w) = RequestException \<or>
         (\<exists>e. net w (trace w1) (info_request p1 w) = OtherException e) \<longrightarrow>
           fst (get_extension_info p w) = Ret JNull \<and>
           last (out (snd (snd (get_extension_info p w)))) = InfoError) \<and>
        (\<forall>r. net w (trace w1) (info_request p1 w) = Resp r \<and> status_code r \<noteq> 200 \<longrightarrow>
           fst (get_extension_info p w) = Ret JNull \<and>
           last (out (snd (snd (get_extension_info p w)))) =
             HttpError (status_code r) (resp_text r))) \<and>
   \<not> authorized (token_request p) \<and>
   (\<exists>A B. issued w (snd (snd (upload_extension p zip_path w))) = A @ B \<and>
          (A = [] \<or> A = [token_request p]) \<and>
          (B = [] \<or> (\<exists>rq. B = [rq] \<and> authorized rq \<and> url rq = upload_url p))) \<and>
   (\<exists>A B. issued w (snd (snd (publish_extension p target w))) = A @ B \<and>
          (A = [] \<or> A = [token_request p]) \<and>
          (B = [] \<or> (\<exists>rq. B = [rq] \<and> authorized rq \<and> url rq = publish_url p))) \<and>
   (\<exists>A B. issued w (snd (snd (get_extension_info p w))) = A @ B \<and>
          (A = [] \<or> A = [token_request p]) \<and>
          (B = [] \<or> (\<exists>rq. B = [rq] \<and> authorized rq \<and>
               url rq = base_url p @ ''/items/'' @ extension_id p @ ''?projection=DRAFT'')))"
proof -
  have a: "(fst (upload_extension p zip_path w) = Ret True \<or>
       fst (upload_extension p zip_path w) = Ret False) \<and>
      (fst (publish_extension p target w) = Ret True \<or>
       fst (publish_extension p target w) = Ret False) \<and>
      (\<exists>doc. fst (get_extension_info p w) = Ret doc)"
    if "truthy (access_token p) \<or>
     (\<forall>e. net w (trace w) (token_request p) \<noteq> OtherException e) \<and>
     (\<forall>r. net w (trace w) (token_request p) = Resp r \<and>
          \<not> (400 \<le> status_code r \<and> status_code r < 600) \<longrightarrow>
          json_body r = JSONDecodeError \<or> (\<exists>d. json_body r = Parsed (JObj d)))"
    using no_token_returns [OF that] upload_result [of p zip_path w]
      publish_result [of p target w] info_result [of p w]
    by blast
  have b: "fst (upload_extension p zip_path w) = Ret False \<and>
      last (out (snd (snd (upload_extension p zip_path w)))) = TokenRefreshError \<and>
      fst (publish_extension p target w) = Ret False \<and>
      last (out (snd (snd (publish_extension p target w)))) = TokenRefreshError \<and>
      fst (get_extension_info p w) = Ret JNull \<and>
      last (out (snd (snd (get_extension_info p w)))) = TokenRefreshError"
    if "\<not> truthy (access_token p)"
      "net w (trace w) (token_request p) = RequestException \<or>
       (\<exists>r. net w (trace w) (token_request p) = Resp r \<and>
          400 \<le> status_code r \<and> status_code r < 600)"
    by (simp add: upload_extension_def publish_extension_def get_extension_info_def
          no_token_fails [OF that])
  have c: "(net w (trace w1) (upload_request p1 w bytes) = RequestException \<or>
         (\<exists>e. net w (trace w1) (upload_request p1 w bytes) = OtherException e) \<longrightarrow>
           fst (upload_extension p zip_path w) = Ret False \<and>
           last (out (snd (snd (upload_extension p zip_path w)))) = UploadError) \<and>
        (\<forall>r. net w (trace w1) (upload_request p1 w bytes) = Resp r \<and> status_code r \<noteq> 200 \<longrightarrow>
           fst (upload_extension p zip_path w) = Ret False \<and>
           last (out (snd (snd (upload_extension p zip_path w)))) =
             HttpError (status_code r) (resp_text r))"
    if "no_token p w = (Ret False, p1, w1) \<and> read_bytes w zip_path = Some bytes" for p1 w1 bytes
    using that upload_call_fails [of p w p1 w1 zip_path bytes] by blast
  have d: "(net w (trace w1) (publish_request p1 w target) = RequestException \<or>
         (\<exists>e. net w (trace w1) (publish_request p1 w target) = OtherException e) \<longrightarrow>
           fst (publish_extension p target w) = Ret False \<and>
           last (out (snd (snd (publish_extension p target w)))) = PublishError) \<and>
        (\<forall>r. net w (trace w1) (publish_request p1 w target) = Resp r \<and> status_code r \<noteq> 200 \<longrightarrow>
           fst (publish_extension p target w) = Ret False \<and>
           last (out (snd (snd (publish_extension p target w)))) =
             HttpError (status_code r) (resp_text r))"
    if "no_token p w = (Ret False, p1, w1)" for p1 w1
    by (rule publish_call_fails [OF that])
  have e: "(net w (trace w1) (info_request p1 w) = RequestException \<or>
         (\<exists>e. net w (trace w1) (info_request p1 w) = OtherException e) \<longrightarrow>
           fst (get_extension_info p w) = Ret JNull \<and>
           last (out (snd (snd (get_extension_info p w)))) = InfoError) \<and>
        (\<forall>r. net w (trace w1) (info_request p1 w) = Resp r \<and> status_code r \<noteq> 200 \<longrightarrow>
           fst (get_extension_info p w) = Ret JNull \<and>
           last (out (snd (snd (get_extension_info p w)))) =
             HttpError (status_code r) (resp_text r))"
    if "no_token p w = (Ret False, p1, w1)" for p1 w1
    by (rule info_call_fails [OF that])
  show ?thesis
    apply (intro conjI)
            apply (use a in blast)
           apply (use b in blast)
          apply (use c in blast)
         apply (use d in blast)
        apply (use e in blast)
       apply (rule authorized_requests(1))
      apply (rule upload_no_retry)
     apply (rule publish_no_retry)
    apply (rule info_no_retry)
    done
qed

theorem failures_are_values_witness:
  "fst (upload_extension demo_publisher demo_zip
         (demo_world (answers token_ok server_error publish_ok RequestException))) = Ret False \<and>
   last (out (snd (snd (upload_extension demo_publisher demo_zip
         (demo_world (answers token_ok server_error publish_ok RequestException))))))
     = HttpError 500 ''Internal Server Error'' \<and>
   fst (get_extension_info demo_publisher
         (demo_world (answers token_ok server_error publish_ok RequestException))) = Ret JNull \<and>
   last (out (snd (snd (get_extension_info demo_publisher
         (demo_world (answers token_ok server_error publish_ok RequestException))))))
     = InfoError \<and>
   fst (publish_extension demo_publisher ''default'' (demo_world token_down)) = Ret False \<and>
   last (out (snd (snd (publish_extension demo_publisher ''default'' (demo_world token_down)))))
     = TokenRefreshError \<and>
   (fst (publish_extension demo_publisher ''default''
         (demo_world (answers token_ok server_error publish_ok RequestException))) = Ret True \<or>
    fst (publish_extension demo_publisher ''default''
         (demo_world (answers token_ok server_error publish_ok RequestException))) = Ret False)"
proof -
  let ?w = "demo_world (answers token_ok server_error publish_ok RequestException)"
  let ?p1 = "demo_publisher\<lparr>access_token := JStr ''tok''\<rparr>"
  let ?w1 = "?w\<lparr>trace := [token_request demo_publisher], out := [RefreshingToken, TokenRefreshed]\<rparr>"
  note t = failures_are_values [of demo_publisher ?w demo_zip "''default''"]
  note d = failures_are_values [of demo_publisher "demo_world token_down" demo_zip "''default''"]
  have g: "no_token demo_publisher ?w = (Ret False, ?p1, ?w1)" by (rule demo_refresh)
  have f: "read_bytes ?w demo_zip = Some ''PK''" by (simp add: demo)
  have u: "net ?w (trace ?w1) (upload_request ?p1 ?w ''PK'')
      = Resp \<lparr>status_code = 500, resp_text = ''Internal Server Error'', json_body = JSONDecodeError\<rparr>"
    by (simp add: demo)
  have i: "net ?w (trace ?w1) (info_request ?p1 ?w) = RequestException"
    by (simp add: demo)
  have k: "(\<forall>e. net ?w (trace ?w) (token_request demo_publisher) \<noteq> OtherException e) \<and>
     (\<forall>r. net ?w (trace ?w) (token_request demo_publisher) = Resp r \<and>
          \<not> (400 \<le> status_code r \<and> status_code r < 600) \<longrightarrow>
          json_body r = JSONDecodeError \<or> (\<exists>d. json_body r = Parsed (JObj d)))"
    by (auto simp: demo)
  have n: "\<not> truthy (access_token demo_publisher)" by (simp add: demo)
  have o: "net (demo_world token_down) (trace (demo_world token_down)) (token_request demo_publisher)
      = RequestException"
    by (simp add: demo)
  from t g f u have 1: "fst (upload_extension demo_publisher demo_zip ?w) = Ret False \<and>
      last (out (snd (snd (upload_extension demo_publisher demo_zip ?w))))
        = HttpError 500 ''Internal Server Error''"
    by (auto simp del: fst_conv snd_conv)
  from t g i have 2: "fst (get_extension_info demo_publisher ?w) = Ret JNull \<and>
      last (out (snd (snd (get_extension_info demo_publisher ?w)))) = InfoError"
    by blast
  from d n o have 3: "fst (publish_extension demo_publisher ''default'' (demo_world token_down)) = Ret False \<and>
      last (out (snd (snd (publish_extension demo_publisher ''default'' (demo_world token_down)))))
        = TokenRefreshError"
    by blast
  from t k have 4: "fst (publish_extension demo_publisher ''default'' ?w) = Ret True \<or>
      fst (publish_extension demo_publisher ''default'' ?w) = Ret False"
    by blast
  from 1 2 3 4 show ?thesis by blast
qed

theorem failures_are_values_counterexample:
  "fst (upload_extension demo_publisher demo_zip
         (demo_world (answers token_array upload_ok publish_ok RequestException)))
     = Raise AttributeError \<and>
   fst (publish_extension demo_publisher ''default''
         (demo_world (answers token_array upload_ok publish_ok RequestException)))
     = Raise AttributeError \<and>
   fst (get_extension_info demo_publisher
         (demo_world (answers token_array upload_ok publish_ok RequestException)))
     = Raise AttributeError \<and>
   fst (upload_extension demo_publisher demo_zip
         (demo_world (answers token_deep upload_ok publish_ok RequestException)))
     = Raise RecursionError \<and>
   net (demo_world (answers token_created upload_ok publish_ok RequestException)) []
       (token_request demo_publisher)
     = Resp \<lparr>status_code = 201, resp_text = ''{access_token: tok}'',
             json_body = Parsed (JObj [(''access_token'', JStr ''tok'')])\<rparr> \<and>
   fst (upload_extension demo_publisher demo_zip
         (demo_world (answers token_created upload_ok publish_ok RequestException)))
     = Ret True"
  by (simp add: run demo)

subsection \<open>C9: publishing only after a successful upload\<close>

text \<open>
  C9. In a run of the \<^verbatim>\<open>publish\<close> or \<^verbatim>\<open>testers\<close> action that gets as far as the
  upload, let \<open>r\<close> be what \<open>upload_extension\<close> returns and \<open>w2\<close> the world it leaves. If
  \<open>r\<close> is not True, the process ends with exit code 1, no HTTP call is issued after those
  of the upload, and none of the calls of the run goes to the publish URL. If \<open>r\<close> is
  True, exactly one call follows those of the upload, the publish request; no call of the
  upload itself goes to the publish URL.
\<close>

theorem publish_only_after_upload:
  assumes prep: "main_prepare zip_arg w = (Ret (p, zip_path), w1)"
      and act: "a = Publish \<or> a = Testers"
      and up: "upload_extension p zip_path w1 = (r, p1, w2)"
  shows "(r \<noteq> Ret True \<longrightarrow>
            exit_code (fst (main a zip_arg w)) = 1 \<and>
            trace (snd (main a zip_arg w)) = trace w2 \<and>
            (\<forall>rq \<in> set (issued w (snd (main a zip_arg w))). url rq \<noteq> publish_url p)) \<and>
         (r = Ret True \<longrightarrow>
            trace (snd (main a zip_arg w)) =
              trace w2 @ [publish_request p1 w2 (if a = Testers then ''testers'' else ''default'')] \<and>
            (\<forall>rq \<in> set (issued w w2). url rq \<noteq> publish_url p))"
proof -
  let ?t = "if a = Testers then ''testers'' else ''default''"
  note m = main_runs_execute [OF prep]
  from m(6) obtain cid secret rtoken eid
    where p: "p = ChromeWebStorePublisher cid secret rtoken eid" by blast
  have same: "same_account (ChromeWebStorePublisher cid secret rtoken eid) p" by (simp add: p)
  have iss: "issued w x = issued w1 x" for x by (simp add: issued_def m(2))
  have quiet: "\<forall>rq \<in> set (issued w w2). url rq \<noteq> publish_url p"
  proof
    fix rq assume "rq \<in> set (issued w w2)"
    then have "rq \<in> set (issued w1 (snd (snd (upload_extension p zip_path w1))))"
      by (simp add: iss up)
    from upload_urls [OF this] publisher_urls(1,2) [OF same]
    show "url rq \<noteq> publish_url p" by auto
  qed
  have tr: "trace (snd (main a zip_arg w)) = trace (snd (upload_and_publish p zip_path ?t w1))"
    using act by (auto simp: m(1) main_execute_trace)
  have res: "fst (main a zip_arg w) =
     (case fst (upload_and_publish p zip_path ?t w1) of
        Ret ok \<Rightarrow> if ok then Ret () else Exit 1
      | Raise e \<Rightarrow> Raise e
      | Exit n \<Rightarrow> Exit n)"
    by (simp only: m(1) main_execute_publish_result [OF act])
  have failed: "exit_code (fst (main a zip_arg w)) = 1 \<and>
      trace (snd (main a zip_arg w)) = trace w2 \<and>
      (\<forall>rq \<in> set (issued w (snd (main a zip_arg w))). url rq \<noteq> publish_url p)"
    if "r \<noteq> Ret True"
  proof -
    from that have e: "upload_and_publish p zip_path ?t w1 = (r, w2)"
      by (simp add: upload_and_publish_eq up)
    from upload_result [of p zip_path w1] up that
    have "r = Ret False \<or> (\<exists>e. r = Raise e)" by auto
    then have "exit_code (fst (main a zip_arg w)) = 1"
      by (auto simp: res e)
    moreover have t2: "trace (snd (main a zip_arg w)) = trace w2" by (simp add: tr e)
    moreover have "issued w (snd (main a zip_arg w)) = issued w w2"
      by (simp add: issued_def t2)
    ultimately show ?thesis using quiet by simp
  qed
  have succeeded: "trace (snd (main a zip_arg w)) = trace w2 @ [publish_request p1 w2 ?t]"
    if "r = Ret True"
  proof -
    from up that have u: "upload_extension p zip_path w1 = (Ret True, p1, w2)" by simp
    from upload_success(1) [OF u] have g: "no_token p1 w2 = (Ret False, p1, w2)"
      by (rule no_token_held)
    have "trace (snd (upload_and_publish p zip_path ?t w1)) =
        trace (snd (snd (publish_extension p1 ?t w2)))"
      by (simp add: upload_and_publish_eq u)
    also have "\<dots> = trace w2 @ [publish_request p1 w2 ?t]"
      by (simp add: publish_trace g)
    finally show ?thesis by (simp add: tr)
  qed
  from failed succeeded quiet show ?thesis by blast
qed

theorem publish_only_after_upload_witness:
  "exit_code (fst (main Publish None (demo_world (answers token_ok upload_rejected publish_ok RequestException)))) = 1 \<and>
   map url (trace (snd (main Publish None
      (demo_world (answers token_ok upload_rejected publish_ok RequestException)))))
     = [token_url, upload_url demo_publisher] \<and>
   map url (trace (snd (main Testers None
      (demo_world (answers token_ok upload_ok publish_ok RequestException)))))
     = [token_url, upload_url demo_publisher, publish_url demo_publisher]"
proof -
  let ?rej = "demo_world (answers token_ok upload_rejected publish_ok RequestException)"
  let ?ok = "demo_world (answers token_ok upload_ok publish_ok RequestException)"
  let ?u1 = "upload_extension demo_publisher demo_zip (snd (main_prepare None ?rej))"
  let ?u2 = "upload_extension demo_publisher demo_zip (snd (main_prepare None ?ok))"
  have prep1: "main_prepare None ?rej = (Ret (demo_publisher, demo_zip), snd (main_prepare None ?rej))"
    by (simp add: prod_eq_iff run demo)
  have prep2: "main_prepare None ?ok = (Ret (demo_publisher, demo_zip), snd (main_prepare None ?ok))"
    by (simp add: prod_eq_iff run demo)
  have up1: "?u1 = (Ret False, fst (snd ?u1), snd (snd ?u1))"
    by (simp add: prod_eq_iff run demo)
  have up2: "?u2 = (Ret True, fst (snd ?u2), snd (snd ?u2))"
    by (simp add: prod_eq_iff run demo)
  have t1: "map url (trace (snd (snd ?u1))) = [token_url, upload_url demo_publisher]"
    by (simp add: run demo)
  have t2: "map url (trace (snd (snd ?u2))) = [token_url, upload_url demo_publisher]"
    by (simp add: run demo)
  have pu: "url (publish_request (fst (snd ?u2)) (snd (snd ?u2)) ''testers'') = publish_url demo_publisher"
    by (simp add: run demo)
  from publish_only_after_upload [OF prep1 _ up1, of Publish]
  have a: "exit_code (fst (main Publish None ?rej)) = 1 \<and>
      trace (snd (main Publish None ?rej)) = trace (snd (snd ?u1))"
    by simp
  from publish_only_after_upload [OF prep2 _ up2, of Testers]
  have b: "trace (snd (main Testers None ?ok)) =
      trace (snd (snd ?u2)) @ [publish_request (fst (snd ?u2)) (snd (snd ?u2)) ''testers'']"
    by simp
  show ?thesis
    using a t1 by (simp add: b t2 pu)
qed

subsection \<open>C10: the package.json is read whatever the package path\<close>

lemma get_project_info_fails:
  assumes "\<not> path_exists w (path_join (project_root w) ''package.json'') \<or>
           (\<forall>pkg_data. load_json w (path_join (project_root w) ''package.json'') \<noteq> Some (JObj pkg_data))"
  shows "get_project_info w =
           (Exit 1, say (if \<not> path_exists w (path_join (project_root w) ''package.json'')
                         then PackageJsonNotFound else PackageJsonError) w)"
  using assms
  by (auto simp: get_project_info_def Let_def split: option.splits json.splits)

lemma prepare_without_package_json:
  assumes bad: "\<not> path_exists w (path_join (project_root w) ''package.json'') \<or>
           (\<forall>pkg_data. load_json w (path_join (project_root w) ''package.json'') \<noteq> Some (JObj pkg_data))"
  shows "fst (main_prepare zip_arg w) = Exit 1"
    and "trace (snd (main_prepare zip_arg w)) = trace w"
    and "fst (get_env_vars w) = Ret (cid, secret, rtoken, eid) \<Longrightarrow>
           out (snd (main_prepare zip_arg w)) =
             out (snd (get_env_vars w)) @
             [if \<not> path_exists w (path_join (project_root w) ''package.json'')
              then PackageJsonNotFound else PackageJsonError]"
proof -
  obtain r1 w1 where e1: "get_env_vars w = (r1, w1)" by (cases "get_env_vars w") auto
  from get_env_vars_same [of w] e1 have s: "same_files w w1" by simp
  then have eq: "path_exists w1 = path_exists w" "load_json w1 = load_json w"
    "project_root w1 = project_root w" "trace w1 = trace w"
    by (simp_all add: same_files_def)
  from bad have "\<not> path_exists w1 (path_join (project_root w1) ''package.json'') \<or>
      (\<forall>pkg_data. load_json w1 (path_join (project_root w1) ''package.json'') \<noteq> Some (JObj pkg_data))"
    by (simp add: eq)
  from get_project_info_fails [OF this]
  have gp: "get_project_info w1 =
      (Exit 1, say (if \<not> path_exists w (path_join (project_root w) ''package.json'')
                    then PackageJsonNotFound else PackageJsonError) w1)"
    by (simp add: eq)
  from get_env_vars_result [of w] e1 have "r1 = Exit 1 \<or> (\<exists>v. r1 = Ret v)" by simp
  then consider "r1 = Exit 1" | c s t e where "r1 = Ret (c, s, t, e)"
    by (metis prod_cases4)
  then have m: "fst (main_prepare zip_arg w) = Exit 1 \<and>
      trace (snd (main_prepare zip_arg w)) = trace w \<and>
      (fst (get_env_vars w) = Ret (cid, secret, rtoken, eid) \<longrightarrow>
         out (snd (main_prepare zip_arg w)) =
           out (snd (get_env_vars w)) @
           [if \<not> path_exists w (path_join (project_root w) ''package.json'')
            then PackageJsonNotFound else PackageJsonError])"
  proof cases
    case 1
    then show ?thesis by (simp add: main_prepare_def e1 eq)
  next
    case 2
    then show ?thesis by (simp add: main_prepare_def e1 gp eq)
  qed
  from m show "fst (main_prepare zip_arg w) = Exit 1" by simp
  from m show "trace (snd (main_prepare zip_arg w)) = trace w" by simp
  from m show "out (snd (main_prepare zip_arg w)) =
             out (snd (get_env_vars w)) @
             [if \<not> path_exists w (path_join (project_root w) ''package.json'')
              then PackageJsonNotFound else PackageJsonError]"
    if "fst (get_env_vars w) = Ret (cid, secret, rtoken, eid)"
    using that by simp
qed

lemma main_stops:
  assumes "fst (main_prepare zip_arg w) = Exit n"
  shows "main a zip_arg w = (Exit n, snd (main_prepare zip_arg w))"
  using assms by (cases "main_prepare zip_arg w") (simp add: main_def)

lemma prepare_with_zip:
  assumes "z \<noteq> []" and "path_exists w (Path z)"
      and "fst (get_env_vars w) = Ret (cid, secret, rtoken, eid)"
      and "path_exists w (path_join (project_root w) ''package.json'')"
      and "load_json w (path_join (project_root w) ''package.json'') = Some (JObj pkg_data)"
  shows "fst (main_prepare (Some z) w) = Ret (ChromeWebStorePublisher cid secret rtoken eid, Path z)"
    and "out (snd (main_prepare (Some z) w)) =
           out (snd (get_env_vars w)) @
           [ExtensionIdLine eid, PackageLine (path_name (Path z)),
            VersionLine (dict_get pkg_data ''version'' (JStr ''1.0.0'')), BlankLine]"
proof -
  obtain r1 w1 where e1: "get_env_vars w = (r1, w1)" by (cases "get_env_vars w") auto
  with assms(3) have r1: "r1 = Ret (cid, secret, rtoken, eid)" by simp
  from get_env_vars_same [of w] e1 have "same_files w w1" by simp
  then have eq: "path_exists w1 = path_exists w" "load_json w1 = load_json w"
    "project_root w1 = project_root w"
    by (simp_all add: same_files_def)
  show "fst (main_prepare (Some z) w) = Ret (ChromeWebStorePublisher cid secret rtoken eid, Path z)"
    using assms(1,2,4,5)
    by (simp add: main_prepare_def e1 r1 get_project_info_def eq Let_def)
  show "out (snd (main_prepare (Some z) w)) =
           out (snd (get_env_vars w)) @
           [ExtensionIdLine eid, PackageLine (path_name (Path z)),
            VersionLine (dict_get pkg_data ''version'' (JStr ''1.0.0'')), BlankLine]"
    using assms(1,2,4,5)
    by (simp add: main_prepare_def e1 r1 get_project_info_def eq Let_def)
qed

lemma prepare_with_lookup:
  assumes "fst (get_env_vars w) = Ret (cid, secret, rtoken, eid)"
      and "path_exists w (path_join (project_root w) ''package.json'')"
      and "load_json w (path_join (project_root w) ''package.json'') = Some (JObj pkg_data)"
      and "\<not> path_exists w (path_join (path_join (project_root w) ''builds'')
             (''eksi-arti-v'' @ py_str w (dict_get pkg_data ''version'' (JStr ''1.0.0'')) @ ''.zip''))"
  shows "fst (main_prepare None w) = Exit 1"
proof -
  obtain r1 w1 where e1: "get_env_vars w = (r1, w1)" by (cases "get_env_vars w") auto
  with assms(1) have r1: "r1 = Ret (cid, secret, rtoken, eid)" by simp
  from get_env_vars_same [of w] e1 have "same_files w w1" by simp
  then have eq: "path_exists w1 = path_exists w" "load_json w1 = load_json w"
    "project_root w1 = project_root w" "repr w1 = repr w"
    by (simp_all add: same_files_def)
  note ps = py_str_repr [OF eq(4)]
  show ?thesis
    using assms(2,3,4)
    by (simp add: main_prepare_def e1 r1 get_project_info_def find_extension_zip_def eq ps Let_def)
qed

text \<open>
  C10. For every action (of the four that are not \<^verbatim>\<open>setup\<close>) and every \<^verbatim>\<open>--zip\<close>
  argument, given or not: (1) if package.json does not exist in the project root, or
  exists and cannot be read as a JSON object (opening or parsing it raises, or it holds
  another JSON value), \<open>main\<close> ends with \<^verbatim>\<open>sys.exit(1)\<close> and has issued no HTTP call;
  (2) in a run that has its credentials, the line printed last is then the one of
  \<open>get_project_info\<close>, that package.json was not found or that reading it failed. So
  the file is read also when \<^verbatim>\<open>--zip\<close> names the package. (3) What the argument
  bypasses is the lookup of the package by its name only: with the credentials present
  and a package.json that holds an object, a non-empty \<^verbatim>\<open>--zip\<close> path that exists is
  the package the run goes on with, whether or not the builds directory holds one, and
  the version that the run prints is the \<open>version\<close> entry read from package.json
  (\<open>1.0.0\<close> when the object has none). (4) Without the argument, the same run ends
  with \<^verbatim>\<open>sys.exit(1)\<close> when the builds directory holds no package named after that
  version.
\<close>

theorem package_json_required:
  "(\<not> path_exists w (path_join (project_root w) ''package.json'') \<or>
    (\<forall>pkg_data. load_json w (path_join (project_root w) ''package.json'') \<noteq> Some (JObj pkg_data)) \<longrightarrow>
      fst (main a zip_arg w) = Exit 1 \<and> trace (snd (main a zip_arg w)) = trace w \<and>
      (\<forall>cid secret rtoken eid.
         fst (get_env_vars w) = Ret (cid, secret, rtoken, eid) \<longrightarrow>
           out (snd (main a zip_arg w)) =
             out (snd (get_env_vars w)) @
             [if \<not> path_exists w (path_join (project_root w) ''package.json'')
              then PackageJsonNotFound else PackageJsonError])) \<and>
   (\<forall>z cid secret rtoken eid pkg_data.
      z \<noteq> [] \<and> path_exists w (Path z) \<and>
      fst (get_env_vars w) = Ret (cid, secret, rtoken, eid) \<and>
      path_exists w (path_join (project_root w) ''package.json'') \<and>
      load_json w (path_join (project_root w) ''package.json'') = Some (JObj pkg_data) \<longrightarrow>
      fst (main_prepare (Some z) w) = Ret (ChromeWebStorePublisher cid secret rtoken eid, Path z) \<and>
      out (snd (main_prepare (Some z) w)) =
        out (snd (get_env_vars w)) @
        [ExtensionIdLine eid, PackageLine (path_name (Path z)),
         VersionLine (dict_get pkg_data ''version'' (JStr ''1.0.0'')), BlankLine] \<and>
      main a (Some z) w =
        main_execute a (ChromeWebStorePublisher cid secret rtoken eid) (Path z)
          (snd (main_prepare (Some z) w))) \<and>
   (\<forall>cid secret rtoken eid pkg_data.
      fst (get_env_vars w) = Ret (cid, secret, rtoken, eid) \<and>
      path_exists w (path_join (project_root w) ''package.json'') \<and>
      load_json w (path_join (project_root w) ''package.json'') = Some (JObj pkg_data) \<and>
      \<not> path_exists w (path_join (path_join (project_root w) ''builds'')
           (''eksi-arti-v'' @ py_str w (dict_get pkg_data ''version'' (JStr ''1.0.0'')) @ ''.zip'')) \<longrightarrow>
      fst (main a None w) = Exit 1 \<and> trace (snd (main a None w)) = trace w)"
proof -
  have one: "fst (main a zip_arg w) = Exit 1 \<and> trace (snd (main a zip_arg w)) = trace w \<and>
      (\<forall>cid secret rtoken eid.
         fst (get_env_vars w) = Ret (cid, secret, rtoken, eid) \<longrightarrow>
           out (snd (main a zip_arg w)) =
             out (snd (get_env_vars w)) @
             [if \<not> path_exists w (path_join (project_root w) ''package.json'')
              then PackageJsonNotFound else PackageJsonError])"
    if bad: "\<not> path_exists w (path_join (project_root w) ''package.json'') \<or>
      (\<forall>pkg_data. load_json w (path_join (project_root w) ''package.json'') \<noteq> Some (JObj pkg_data))"
  proof -
    note p = prepare_without_package_json [OF bad, where zip_arg = zip_arg]
    from main_stops [OF p(1)] have m: "main a zip_arg w = (Exit 1, snd (main_prepare zip_arg w))" .
    from p(2) p(3) show ?thesis by (simp add: m)
  qed
  have two: "fst (main_prepare (Some z) w) = Ret (ChromeWebStorePublisher cid secret rtoken eid, Path z) \<and>
      out (snd (main_prepare (Some z) w)) =
        out (snd (get_env_vars w)) @
        [ExtensionIdLine eid, PackageLine (path_name (Path z)),
         VersionLine (dict_get pkg_data ''version'' (JStr ''1.0.0'')), BlankLine] \<and>
      main a (Some z) w =
        main_execute a (ChromeWebStorePublisher cid secret rtoken eid) (Path z)
          (snd (main_prepare (Some z) w))"
    if h: "z \<noteq> [] \<and> path_exists w (Path z) \<and>
      fst (get_env_vars w) = Ret (cid, secret, rtoken, eid) \<and>
      path_exists w (path_join (project_root w) ''package.json'') \<and>
      load_json w (path_join (project_root w) ''package.json'') = Some (JObj pkg_data)"
    for z cid secret rtoken eid pkg_data
  proof -
    from h prepare_with_zip [of z w cid secret rtoken eid pkg_data]
    have r: "fst (main_prepare (Some z) w) = Ret (ChromeWebStorePublisher cid secret rtoken eid, Path z)"
      and o: "out (snd (main_prepare (Some z) w)) =
        out (snd (get_env_vars w)) @
        [ExtensionIdLine eid, PackageLine (path_name (Path z)),
         VersionLine (dict_get pkg_data ''version'' (JStr ''1.0.0'')), BlankLine]"
      by blast+
    from r have "main_prepare (Some z) w =
        (Ret (ChromeWebStorePublisher cid secret rtoken eid, Path z), snd (main_prepare (Some z) w))"
      by (simp add: prod_eq_iff)
    from main_runs_execute(1) [OF this] r o show ?thesis by simp
  qed
  have three: "fst (main a None w) = Exit 1 \<and> trace (snd (main a None w)) = trace w"
    if h: "fst (get_env_vars w) = Ret (cid, secret, rtoken, eid) \<and>
      path_exists w (path_join (project_root w) ''package.json'') \<and>
      load_json w (path_join (project_root w) ''package.json'') = Some (JObj pkg_data) \<and>
      \<not> path_exists w (path_join (path_join (project_root w) ''builds'')
           (''eksi-arti-v'' @ py_str w (dict_get pkg_data ''version'' (JStr ''1.0.0'')) @ ''.zip''))"
    for cid secret rtoken eid pkg_data
  proof -
    from h prepare_with_lookup [of w cid secret rtoken eid pkg_data]
    have e: "fst (main_prepare None w) = Exit 1" by blast
    then have "\<forall>v. fst (main_prepare None w) \<noteq> Ret v" by simp
    from main_no_calls [OF this] main_stops [OF e] show ?thesis by simp
  qed
  from one two three show ?thesis by blast
qed

theorem package_json_required_witness:
  "fst (main Upload (Some ''/tmp/my.zip'') no_package_json) = Exit 1 \<and>
   trace (snd (main Upload (Some ''/tmp/my.zip'') no_package_json)) = [] \<and>
   out (snd (main Upload (Some ''/tmp/my.zip'') no_package_json)) = [PackageJsonNotFound] \<and>
   fst (main Info (Some ''/tmp/my.zip'') broken_package_json) = Exit 1 \<and>
   trace (snd (main Info (Some ''/tmp/my.zip'') broken_package_json)) = [] \<and>
   out (snd (main Info (Some ''/tmp/my.zip'') broken_package_json)) = [PackageJsonError] \<and>
   \<not> path_exists custom_zip ''/proj/builds/eksi-arti-v1.2.3.zip'' \<and>
   fst (main_prepare None custom_zip) = Exit 1 \<and>
   fst (main_prepare (Some ''/tmp/my.zip'') custom_zip) = Ret (demo_publisher, ''/tmp/my.zip'') \<and>
   out (snd (main_prepare (Some ''/tmp/my.zip'') custom_zip)) =
     [ExtensionIdLine ''ext'', PackageLine ''my.zip'', VersionLine (JStr ''1.2.3''), BlankLine]"
proof -
  have pj: "path_join ''/proj'' ''package.json'' = ''/proj/package.json''"
    "Path ''/tmp/my.zip'' = ''/tmp/my.zip''" "path_name ''/tmp/my.zip'' = ''my.zip''"
    by (simp_all add: demo)
  have g: "get_env_vars no_package_json = (Ret (''id'', ''secret'', ''rtoken'', ''ext''), no_package_json)"
    "get_env_vars broken_package_json = (Ret (''id'', ''secret'', ''rtoken'', ''ext''), broken_package_json)"
    "get_env_vars custom_zip = (Ret (''id'', ''secret'', ''rtoken'', ''ext''), custom_zip)"
    by (simp_all add: run demo)
  have h1: "\<not> path_exists no_package_json (path_join (project_root no_package_json) ''package.json'')"
    "trace no_package_json = []" "out no_package_json = []"
    by (simp_all add: demo pj)
  have h2: "path_exists broken_package_json (path_join (project_root broken_package_json) ''package.json'')"
    "\<forall>pkg_data. load_json broken_package_json
        (path_join (project_root broken_package_json) ''package.json'') \<noteq> Some (JObj pkg_data)"
    "trace broken_package_json = []" "out broken_package_json = []"
    by (simp_all add: demo pj)
  have h3: "''/tmp/my.zip'' \<noteq> [] \<and> path_exists custom_zip (Path ''/tmp/my.zip'') \<and>
      path_exists custom_zip (path_join (project_root custom_zip) ''package.json'') \<and>
      load_json custom_zip (path_join (project_root custom_zip) ''package.json'')
        = Some (JObj [(''version'', JStr ''1.2.3'')])"
    "out custom_zip = []"
    by (simp_all add: demo pj)
  have lookup: "\<not> path_exists custom_zip ''/proj/builds/eksi-arti-v1.2.3.zip''"
    "fst (main_prepare None custom_zip) = Exit 1"
    by (simp_all add: run demo)
  from package_json_required [of no_package_json Upload "Some ''/tmp/my.zip''"] h1 g(1)
  have a: "fst (main Upload (Some ''/tmp/my.zip'') no_package_json) = Exit 1 \<and>
     trace (snd (main Upload (Some ''/tmp/my.zip'') no_package_json)) = [] \<and>
     out (snd (main Upload (Some ''/tmp/my.zip'') no_package_json)) = [PackageJsonNotFound]"
    by simp
  from package_json_required [of broken_package_json Info "Some ''/tmp/my.zip''"] h2 g(2)
  have b: "fst (main Info (Some ''/tmp/my.zip'') broken_package_json) = Exit 1 \<and>
     trace (snd (main Info (Some ''/tmp/my.zip'') broken_package_json)) = [] \<and>
     out (snd (main Info (Some ''/tmp/my.zip'') broken_package_json)) = [PackageJsonError]"
    by simp
  note t = package_json_required [of custom_zip Upload None, THEN conjunct2, THEN conjunct1, rule_format,
      of "''/tmp/my.zip''" "''id''" "''secret''" "''rtoken''" "''ext''" "[(''version'', JStr ''1.2.3'')]"]
  from t h3 g(3)
  have c: "fst (main_prepare (Some ''/tmp/my.zip'') custom_zip)
       = Ret (ChromeWebStorePublisher ''id'' ''secret'' ''rtoken'' ''ext'', Path ''/tmp/my.zip'') \<and>
     out (snd (main_prepare (Some ''/tmp/my.zip'') custom_zip)) =
       [ExtensionIdLine ''ext'', PackageLine (path_name (Path ''/tmp/my.zip'')),
        VersionLine (dict_get [(''version'', JStr ''1.2.3'')] ''version'' (JStr ''1.0.0'')), BlankLine]"
    by simp
  show ?thesis
    using a b c lookup by (simp add: demo_publisher_def pj dict_get_def)
qed

end
